theory Spec2Isabelle
  imports Main "HOL-Library.AList" "HOL-Library.Char_ord" "HOL-Library.List_Lexorder"
begin

section \<open>Values\<close>

text \<open>
  The value classes of \<^verbatim>\<open>values/index.js\<close> are not part of the sources at hand; only their
  uses are. A value is one of the concrete classes or an abstract value. Numbers are
  integers here (array lengths and indices); objects are references into the heap of the
  realm.
\<close>

type_synonym ref = nat

datatype ValueType =
  UndefinedType | NullType | EmptyType | BooleanType | NumberType | StringType
  | SymbolType | ObjectType | FunctionType | TopType

datatype val =
    UndefinedValue
  | NullValue
  | EmptyValue
  | BooleanValue bool
  | NumberValue int
  | StringValue string
  | SymbolValue nat
  | ObjectValue ref
  | AbstractValue nat ValueType bool string

text \<open>
  Modelled from the spec: the classification predicates of the value model
  (\<^verbatim>\<open>Value.mightHaveBeenDeleted\<close>, \<^verbatim>\<open>Value.getType\<close>, \<^verbatim>\<open>Value.throwIfNotConcrete\<close>), which are
  methods of the value classes. An abstract value \<open>AbstractValue i t d k\<close> has the identity
  \<open>i\<close>, the type estimate \<open>t\<close>, the flag \<open>d\<close> (its value set holds the empty value: it might
  have been deleted) and the kind \<open>k\<close>.
\<close>

fun isAbstract :: "val \<Rightarrow> bool" where
  "isAbstract (AbstractValue i t d k) = True"
| "isAbstract v = False"

definition isConcrete :: "val \<Rightarrow> bool" where
  "isConcrete v = (\<not> isAbstract v)"

fun mightHaveBeenDeleted :: "val \<Rightarrow> bool" where
  "mightHaveBeenDeleted (AbstractValue i t d k) = d"
| "mightHaveBeenDeleted v = False"

fun getType :: "val \<Rightarrow> ValueType" where
  "getType UndefinedValue = UndefinedType"
| "getType NullValue = NullType"
| "getType EmptyValue = EmptyType"
| "getType (BooleanValue b) = BooleanType"
| "getType (NumberValue n) = NumberType"
| "getType (StringValue s) = StringType"
| "getType (SymbolValue s) = SymbolType"
| "getType (ObjectValue r) = ObjectType"
| "getType (AbstractValue i t d k) = t"

fun mightBeObject :: "val \<Rightarrow> bool" where
  "mightBeObject (ObjectValue r) = True"
| "mightBeObject (AbstractValue i t d k) = (t = ObjectType \<or> t = FunctionType \<or> t = TopType)"
| "mightBeObject v = False"

datatype ErrorConstructor = TypeError | RangeError | ReferenceError

datatype completion =
    ThrowCompletion ErrorConstructor "string option"
  | BreakCompletion val "string option"

datatype error =
    IntrospectionError
  | Abrupt completion
  | InvariantViolation

definition andThen :: "error + 'a \<Rightarrow> ('a \<Rightarrow> error + 'b) \<Rightarrow> error + 'b" where
  "andThen m f = (case m of Inl e \<Rightarrow> Inl e | Inr x \<Rightarrow> f x)"

definition throwIfNotConcrete :: "val \<Rightarrow> error + val" where
  "throwIfNotConcrete v = (if isAbstract v then Inl IntrospectionError else Inr v)"

text \<open>
  Modelled from the spec: \<^verbatim>\<open>SameValue\<close> (strict value comparison of two concrete values) and
  \<^verbatim>\<open>SameValuePartial\<close>, which fails with IntrospectionError on an abstract argument. Two
  abstract values are the same reference exactly when they are equal, identity included.
\<close>

definition SameValue :: "val \<Rightarrow> val \<Rightarrow> bool" where
  "SameValue x y = (x = y)"

definition SameValuePartial :: "val \<Rightarrow> val \<Rightarrow> error + bool" where
  "SameValuePartial x y =
     (if isAbstract x \<or> isAbstract y then Inl IntrospectionError else Inr (SameValue x y))"

section \<open>Descriptors, bindings, objects and the realm\<close>

text \<open>
  A descriptor is a JavaScript object with optional fields; a field is present exactly when
  it is \<open>Some\<close>. A field that is present holds a defined value (the invariants of
  \<^verbatim>\<open>FromPropertyDescriptor\<close> assert it).
\<close>

record Descriptor =
  desc_value :: "val option"
  desc_writable :: "bool option"
  desc_get :: "val option"
  desc_set :: "val option"
  desc_enumerable :: "bool option"
  desc_configurable :: "bool option"

definition empty_Descriptor :: Descriptor where
  "empty_Descriptor =
     \<lparr>desc_value = None, desc_writable = None, desc_get = None, desc_set = None,
      desc_enumerable = None, desc_configurable = None\<rparr>"

datatype PropertiesKey = KString string | KSymbol nat

datatype PropertyKeyValue = PString string | PStringValue string | PSymbolValue nat

record PropertyBinding =
  descriptor :: "Descriptor option"
  binding_object :: ref
  binding_key :: PropertiesKey

text \<open>
  Modelled from the spec: an object (\<^verbatim>\<open>values/ObjectValue.js\<close>) has its maps of string-keyed
  and symbol-keyed property bindings in creation order, its prototype and extensible slots,
  the name under which an intrinsic object is known (\<^verbatim>\<open>isIntrinsic\<close> is that it has one), the
  flags of \<^verbatim>\<open>isPartial\<close> and \<^verbatim>\<open>isSimple\<close>, and its class: an ordinary object, a string
  wrapper with its \<^verbatim>\<open>$StringData\<close>, or a function with its \<^verbatim>\<open>$ThisMode\<close> and whether it is
  native.
\<close>

datatype ThisMode = lexical | strict | global

datatype ObjectKind =
    OrdinaryObject
  | StringExotic "string option"
  | FunctionObject ThisMode bool

record Obj =
  properties :: "(PropertiesKey \<times> PropertyBinding) list"
  symbols :: "(PropertiesKey \<times> PropertyBinding) list"
  Prototype :: val
  Extensible :: bool
  intrinsicName :: "string option"
  partial_flag :: bool
  simple_flag :: bool
  kind :: ObjectKind

datatype GeneratorEntry =
    emitGlobalDelete string
  | emitPropertyDelete ref string
  | emitGlobalDeclaration string val
  | emitGlobalAssignment string val
  | emitPropertyAssignment ref string val
  | emitDefineProperty ref string Descriptor
  | derived nat

text \<open>
  Modelled from the spec: the realm (\<^verbatim>\<open>realm.js\<close>) with its heap of objects, the
  modified-property set of the active effects region (\<open>None\<close> when no region captures),
  the residual-code generator (\<open>None\<close> when there is none), the global object, the stack
  of execution contexts (the running context first) and the this-value of the global
  environment record. An environment has an environment record and a parent.
\<close>

datatype BindingStatus = lexical_this | initialized | uninitialized

record EnvironmentRecord =
  bindings :: "(string \<times> val option) list"
  ThisBindingStatus :: BindingStatus
  ThisValue :: "val option"

datatype LexicalEnvironment =
  LexicalEnvironment (environmentRecord: EnvironmentRecord) (parent: "LexicalEnvironment option")

record ExecutionContext =
  lexicalEnvironment :: "LexicalEnvironment option"
  context_function :: "ref option"

record Realm =
  heap :: "ref \<Rightarrow> Obj"
  modifiedProperties :: "(ref \<times> PropertiesKey) list option"
  generator :: "GeneratorEntry list option"
  GlobalObject :: ref
  nextAbstract :: nat
  contextStack :: "ExecutionContext list"
  GlobalThisValue :: val

definition isIntrinsic :: "Obj \<Rightarrow> bool" where
  "isIntrinsic obj = (intrinsicName obj \<noteq> None)"

definition recordModifiedProperty :: "Realm \<Rightarrow> ref \<times> PropertiesKey \<Rightarrow> Realm" where
  "recordModifiedProperty realm binding =
     (case modifiedProperties realm of
        None \<Rightarrow> realm
      | Some ms \<Rightarrow>
          if binding \<in> set ms then realm
          else realm\<lparr>modifiedProperties := Some (ms @ [binding])\<rparr>)"

definition emit :: "Realm \<Rightarrow> GeneratorEntry \<Rightarrow> Realm" where
  "emit realm entry =
     (case generator realm of
        None \<Rightarrow> realm
      | Some g \<Rightarrow> realm\<lparr>generator := Some (g @ [entry])\<rparr>)"

text \<open>
  Modelled from the spec: \<^verbatim>\<open>generator.derive\<close> gives a fresh abstract value with the given
  type and value estimates and kind, and logs the derivation.
\<close>

definition derive :: "Realm \<Rightarrow> ValueType \<Rightarrow> bool \<Rightarrow> string \<Rightarrow> val \<times> Realm" where
  "derive realm types deleted k =
     (AbstractValue (nextAbstract realm) types deleted k,
      (emit realm (derived (nextAbstract realm)))\<lparr>nextAbstract := Suc (nextAbstract realm)\<rparr>)"

section \<open>Descriptor predicates (methods/is.js)\<close>

definition IsAccessorDescriptor :: "Descriptor option \<Rightarrow> bool" where
  "IsAccessorDescriptor Desc =
     (case Desc of
        None \<Rightarrow> False
      | Some d \<Rightarrow> if desc_get d = None \<and> desc_set d = None then False else True)"

definition IsDataDescriptor :: "Descriptor option \<Rightarrow> bool" where
  "IsDataDescriptor Desc =
     (case Desc of
        None \<Rightarrow> False
      | Some d \<Rightarrow> if desc_value d = None \<and> desc_writable d = None then False else True)"

definition IsGenericDescriptor :: "Descriptor option \<Rightarrow> bool" where
  "IsGenericDescriptor Desc =
     (case Desc of
        None \<Rightarrow> False
      | Some d \<Rightarrow>
          if \<not> IsAccessorDescriptor (Some d) \<and> \<not> IsDataDescriptor (Some d) then True
          else False)"

text \<open>\<^verbatim>\<open>IsInTailPosition\<close>: the node is any syntax tree node.\<close>

definition IsInTailPosition :: "Realm \<Rightarrow> 'node \<Rightarrow> bool" where
  "IsInTailPosition realm node = False"

section \<open>Internal property access (methods/properties.js)\<close>

datatype FieldValue = FBool bool | FVal val

fun InternalDescriptorPropertyToValue :: "FieldValue option \<Rightarrow> val" where
  "InternalDescriptorPropertyToValue None = UndefinedValue"
| "InternalDescriptorPropertyToValue (Some (FBool b)) = BooleanValue b"
| "InternalDescriptorPropertyToValue (Some (FVal v)) = v"

fun InternalGetPropertiesKey :: "PropertyKeyValue \<Rightarrow> PropertiesKey" where
  "InternalGetPropertiesKey (PString s) = KString s"
| "InternalGetPropertiesKey (PStringValue s) = KString s"
| "InternalGetPropertiesKey (PSymbolValue s) = KSymbol s"

fun InternalGetPropertiesMap ::
  "Obj \<Rightarrow> PropertyKeyValue \<Rightarrow> (PropertiesKey \<times> PropertyBinding) list" where
  "InternalGetPropertiesMap obj (PString s) = properties obj"
| "InternalGetPropertiesMap obj (PStringValue s) = properties obj"
| "InternalGetPropertiesMap obj (PSymbolValue s) = symbols obj"

text \<open>
  \<open>map_set\<close> is \<^verbatim>\<open>map.set(key, binding)\<close> on the map that \<^verbatim>\<open>InternalGetPropertiesMap\<close> selects:
  a JavaScript Map keeps the position of a key it has and appends a new one.
\<close>

fun map_set :: "Obj \<Rightarrow> PropertyKeyValue \<Rightarrow> PropertyBinding \<Rightarrow> Obj" where
  "map_set obj (PSymbolValue s) b =
     obj\<lparr>symbols := AList.update (KSymbol s) b (symbols obj)\<rparr>"
| "map_set obj P b =
     obj\<lparr>properties := AList.update (InternalGetPropertiesKey P) b (properties obj)\<rparr>"

definition store_binding :: "Realm \<Rightarrow> ref \<Rightarrow> PropertyKeyValue \<Rightarrow> PropertyBinding \<Rightarrow> Realm" where
  "store_binding realm Ob P b = realm\<lparr>heap := (heap realm)(Ob := map_set (heap realm Ob) P b)\<rparr>"

definition get_binding :: "Realm \<Rightarrow> ref \<Rightarrow> PropertyKeyValue \<Rightarrow> PropertyBinding option" where
  "get_binding realm Ob P =
     map_of (InternalGetPropertiesMap (heap realm Ob) P) (InternalGetPropertiesKey P)"

definition InternalSetProperty :: "Realm \<Rightarrow> ref \<Rightarrow> PropertyKeyValue \<Rightarrow> Descriptor \<Rightarrow> Realm" where
  "InternalSetProperty realm Ob P desc =
     (let key = InternalGetPropertiesKey P;
          propertyBinding =
            (case get_binding realm Ob P of
               None \<Rightarrow> \<lparr>descriptor = None, binding_object = Ob, binding_key = key\<rparr>
             | Some b \<Rightarrow> b);
          realm1 = recordModifiedProperty realm (Ob, key)
      in store_binding realm1 Ob P (propertyBinding\<lparr>descriptor := Some desc\<rparr>))"

definition InternalUpdatedProperty :: "Realm \<Rightarrow> ref \<Rightarrow> PropertyKeyValue \<Rightarrow> Realm" where
  "InternalUpdatedProperty realm Ob P =
     (if \<not> isIntrinsic (heap realm Ob) then realm
      else if generator realm = None then realm
      else case InternalGetPropertiesKey P of
        KSymbol s \<Rightarrow> realm
      | KString p \<Rightarrow>
          (let propertyBinding = get_binding realm Ob (PString p);
               desc = (case propertyBinding of None \<Rightarrow> None | Some b \<Rightarrow> descriptor b)
           in case desc of
                None \<Rightarrow>
                  if Ob = GlobalObject realm then emit realm (emitGlobalDelete p)
                  else emit realm (emitPropertyDelete Ob p)
              | Some d \<Rightarrow>
                  (case desc_value d of
                     None \<Rightarrow> emit realm (emitDefineProperty Ob p d)
                   | Some v \<Rightarrow>
                       if desc_configurable d \<noteq> Some True \<and> desc_enumerable d = Some True
                          \<and> Ob = GlobalObject realm
                       then emit realm (emitGlobalDeclaration p v)
                       else if desc_configurable d = Some True \<and> desc_enumerable d = Some True
                       then (if Ob = GlobalObject realm then emit realm (emitGlobalAssignment p v)
                             else emit realm (emitPropertyAssignment Ob p v))
                       else emit realm (emitDefineProperty Ob p d))))"

definition ThrowIfMightHaveBeenDeleted :: "val option \<Rightarrow> error + unit" where
  "ThrowIfMightHaveBeenDeleted v =
     (case v of
        None \<Rightarrow> Inr ()
      | Some x \<Rightarrow>
          if \<not> mightHaveBeenDeleted x then Inr ()
          else if \<not> isAbstract x then Inl InvariantViolation
          else Inl IntrospectionError)"

text \<open>\<^verbatim>\<open>OrdinaryGetOwnProperty\<close> returns a copy of the stored descriptor, or nothing.\<close>

definition OrdinaryGetOwnProperty ::
  "Realm \<Rightarrow> ref \<Rightarrow> PropertyKeyValue \<Rightarrow> error + (Descriptor option \<times> Realm)" where
  "OrdinaryGetOwnProperty realm Ob P =
     (let obj = heap realm Ob in
      case get_binding realm Ob P of
        None \<Rightarrow>
          if partial_flag obj \<and> \<not> simple_flag obj then Inl IntrospectionError
          else Inr (None, realm)
      | Some existingBinding \<Rightarrow>
          (case descriptor existingBinding of
             None \<Rightarrow> Inr (None, realm)
           | Some X \<Rightarrow>
               if IsDataDescriptor (Some X) then
                 (case desc_value X of
                    Some (AbstractValue i t d k) \<Rightarrow>
                      if partial_flag obj \<and> k \<noteq> ''resolved'' then
                        (case generator realm of
                           None \<Rightarrow> Inl InvariantViolation
                         | Some g \<Rightarrow>
                             (let (v, realm1) = derive realm t d ''resolved'';
                                  realm2 = InternalSetProperty realm1 Ob P
                                    \<lparr>desc_value = Some v,
                                     desc_writable =
                                       Some (case desc_writable X of None \<Rightarrow> False | Some w \<Rightarrow> w),
                                     desc_get = None, desc_set = None,
                                     desc_enumerable =
                                       Some (case desc_enumerable X of None \<Rightarrow> False | Some e \<Rightarrow> e),
                                     desc_configurable =
                                       Some (case desc_configurable X of None \<Rightarrow> False | Some c \<Rightarrow> c)\<rparr>
                              in Inr (Some \<lparr>desc_value = Some v, desc_writable = desc_writable X,
                                     desc_get = None, desc_set = None,
                                     desc_enumerable = desc_enumerable X,
                                     desc_configurable = desc_configurable X\<rparr>, realm2)))
                      else
                        Inr (Some \<lparr>desc_value = desc_value X, desc_writable = desc_writable X,
                               desc_get = None, desc_set = None,
                               desc_enumerable = desc_enumerable X,
                               desc_configurable = desc_configurable X\<rparr>, realm)
                  | _ \<Rightarrow>
                      Inr (Some \<lparr>desc_value = desc_value X, desc_writable = desc_writable X,
                             desc_get = None, desc_set = None,
                             desc_enumerable = desc_enumerable X,
                             desc_configurable = desc_configurable X\<rparr>, realm))
               else if \<not> IsAccessorDescriptor (Some X) then Inl InvariantViolation
               else
                 Inr (Some \<lparr>desc_value = None, desc_writable = None,
                        desc_get = desc_get X, desc_set = desc_set X,
                        desc_enumerable = desc_enumerable X,
                        desc_configurable = desc_configurable X\<rparr>, realm)))"

section \<open>ValidateAndApplyPropertyDescriptor\<close>

datatype Field =
  value_field | writable_field | get_field | set_field | enumerable_field | configurable_field

fun field_of :: "Descriptor \<Rightarrow> Field \<Rightarrow> FieldValue option" where
  "field_of d value_field = map_option FVal (desc_value d)"
| "field_of d writable_field = map_option FBool (desc_writable d)"
| "field_of d get_field = map_option FVal (desc_get d)"
| "field_of d set_field = map_option FVal (desc_set d)"
| "field_of d enumerable_field = map_option FBool (desc_enumerable d)"
| "field_of d configurable_field = map_option FBool (desc_configurable d)"

text \<open>The fields of a descriptor that are present: \<^verbatim>\<open>Object.keys(Desc)\<close>, \<^verbatim>\<open>field in Desc\<close>.\<close>

definition Object_keys :: "Descriptor \<Rightarrow> Field list" where
  "Object_keys d =
     filter (\<lambda>f. field_of d f \<noteq> None)
       [value_field, writable_field, get_field, set_field, enumerable_field,
        configurable_field]"

text \<open>The loop of step 4: it leaves at the first field that is not identical.\<close>

fun identical_fields :: "Descriptor \<Rightarrow> Descriptor \<Rightarrow> Field list \<Rightarrow> bool" where
  "identical_fields Desc current [] = True"
| "identical_fields Desc current (field # rest) =
     (let identical =
        (if field \<notin> set (Object_keys current) then False
         else
           (let dval = InternalDescriptorPropertyToValue (field_of Desc field);
                cval = InternalDescriptorPropertyToValue (field_of current field)
            in if isConcrete dval \<and> isConcrete cval then SameValue dval cval
               else dval = cval))
      in if \<not> identical then False else identical_fields Desc current rest)"

text \<open>\<^verbatim>\<open>for (let field in Desc) property[field] = Desc[field]\<close>\<close>

definition assign_fields :: "Descriptor \<Rightarrow> Descriptor \<Rightarrow> Descriptor" where
  "assign_fields property Desc =
     \<lparr>desc_value = (case desc_value Desc of None \<Rightarrow> desc_value property | Some v \<Rightarrow> Some v),
      desc_writable =
        (case desc_writable Desc of None \<Rightarrow> desc_writable property | Some v \<Rightarrow> Some v),
      desc_get = (case desc_get Desc of None \<Rightarrow> desc_get property | Some v \<Rightarrow> Some v),
      desc_set = (case desc_set Desc of None \<Rightarrow> desc_set property | Some v \<Rightarrow> Some v),
      desc_enumerable =
        (case desc_enumerable Desc of None \<Rightarrow> desc_enumerable property | Some v \<Rightarrow> Some v),
      desc_configurable =
        (case desc_configurable Desc of None \<Rightarrow> desc_configurable property
         | Some v \<Rightarrow> Some v)\<rparr>"

definition or_undefined :: "val option \<Rightarrow> val" where
  "or_undefined v = (case v of None \<Rightarrow> UndefinedValue | Some x \<Rightarrow> x)"

definition or_false :: "bool option \<Rightarrow> bool" where
  "or_false b = (case b of None \<Rightarrow> False | Some x \<Rightarrow> x)"

text \<open>
  Step 2 of \<^verbatim>\<open>ValidateAndApplyPropertyDescriptor\<close>: no current descriptor. With no object
  the call only validates.
\<close>

definition create_property ::
  "Realm \<Rightarrow> ref option \<Rightarrow> PropertyKeyValue option \<Rightarrow> Descriptor \<Rightarrow> error + (bool \<times> Realm)" where
  "create_property realm Ob P Desc =
     (if IsGenericDescriptor (Some Desc) \<or> IsDataDescriptor (Some Desc) then
        (case Ob of
           None \<Rightarrow> Inr (True, realm)
         | Some ob \<Rightarrow>
             (case P of
                None \<Rightarrow> Inl InvariantViolation
              | Some p \<Rightarrow>
                  Inr (True,
                    InternalUpdatedProperty
                      (InternalSetProperty realm ob p
                         \<lparr>desc_value = Some (or_undefined (desc_value Desc)),
                          desc_writable = Some (or_false (desc_writable Desc)),
                          desc_get = None, desc_set = None,
                          desc_enumerable = Some (or_false (desc_enumerable Desc)),
                          desc_configurable = Some (or_false (desc_configurable Desc))\<rparr>)
                      ob p)))
      else
        (case Ob of
           None \<Rightarrow> Inr (True, realm)
         | Some ob \<Rightarrow>
             (case P of
                None \<Rightarrow> Inl InvariantViolation
              | Some p \<Rightarrow>
                  Inr (True,
                    InternalUpdatedProperty
                      (InternalSetProperty realm ob p
                         \<lparr>desc_value = None, desc_writable = None,
                          desc_get = Some (or_undefined (desc_get Desc)),
                          desc_set = Some (or_undefined (desc_set Desc)),
                          desc_enumerable = Some (or_false (desc_enumerable Desc)),
                          desc_configurable = Some (or_false (desc_configurable Desc))\<rparr>)
                      ob p))))"

text \<open>
  Step 7: the kind of the property changes. The stored descriptor is rewritten in place
  (no modified-property record is made here; step 10 makes it).
\<close>

definition convert_property ::
  "Realm \<Rightarrow> ref option \<Rightarrow> PropertyKeyValue option \<Rightarrow> bool \<Rightarrow> error + Realm" where
  "convert_property realm Ob P toAccessor =
     (case Ob of
        None \<Rightarrow> Inr realm
      | Some ob \<Rightarrow>
          (case P of
             None \<Rightarrow> Inl InvariantViolation
           | Some p \<Rightarrow>
               (case get_binding realm ob p of
                  None \<Rightarrow> Inl InvariantViolation
                | Some propertyBinding \<Rightarrow>
                    (case descriptor propertyBinding of
                       None \<Rightarrow> Inr realm
                     | Some desc \<Rightarrow>
                         Inr (store_binding realm ob p
                           (propertyBinding\<lparr>descriptor := Some
                              (if toAccessor then
                                 desc\<lparr>desc_writable := None, desc_value := None,
                                   desc_get := Some UndefinedValue,
                                   desc_set := Some UndefinedValue\<rparr>
                               else
                                 desc\<lparr>desc_get := None, desc_set := None,
                                   desc_writable := Some False,
                                   desc_value := Some UndefinedValue\<rparr>)\<rparr>))))))"

text \<open>
  A present field of \<open>Desc\<close> that differs from the one of \<open>current\<close>:
  \<^verbatim>\<open>Desc.f && !SameValuePartial(realm, Desc.f, current.f || realm.intrinsics.undefined)\<close>.
\<close>

definition differs :: "val option \<Rightarrow> val option \<Rightarrow> error + bool" where
  "differs d c =
     (case d of
        None \<Rightarrow> Inr False
      | Some v \<Rightarrow> andThen (SameValuePartial v (or_undefined c)) (\<lambda>same. Inr (\<not> same)))"

text \<open>
  Steps 5 to 9: the result is \<open>False\<close> where the source returns false, and \<open>True\<close> with the
  realm after a conversion where it goes on to step 10.
\<close>

definition validate_change ::
  "Realm \<Rightarrow> ref option \<Rightarrow> PropertyKeyValue option \<Rightarrow> Descriptor \<Rightarrow> Descriptor
    \<Rightarrow> error + (bool \<times> Realm)" where
  "validate_change realm Ob P Desc current =
     (if desc_configurable current \<noteq> Some True \<and> desc_configurable Desc = Some True
      then Inr (False, realm)
      else if desc_configurable current \<noteq> Some True \<and> desc_enumerable Desc \<noteq> None
              \<and> desc_enumerable Desc \<noteq> desc_enumerable current
      then Inr (False, realm)
      else if IsGenericDescriptor (Some Desc) then Inr (True, realm)
      else if IsDataDescriptor (Some current) \<noteq> IsDataDescriptor (Some Desc) then
        (if desc_configurable current \<noteq> Some True then Inr (False, realm)
         else andThen (convert_property realm Ob P (IsDataDescriptor (Some current)))
                (\<lambda>realm1. Inr (True, realm1)))
      else if IsDataDescriptor (Some current) \<and> IsDataDescriptor (Some Desc) then
        (if desc_configurable current \<noteq> Some True then
           (if desc_writable current \<noteq> Some True \<and> desc_writable Desc = Some True
            then Inr (False, realm)
            else if desc_writable current \<noteq> Some True then
              andThen (differs (desc_value Desc) (desc_value current))
                (\<lambda>d. if d then Inr (False, realm) else Inr (True, realm))
            else Inr (True, realm))
         else Inr (True, realm))
      else
        (if desc_configurable current \<noteq> Some True then
           andThen (differs (desc_set Desc) (desc_set current))
             (\<lambda>d. if d then Inr (False, realm)
                   else andThen (differs (desc_get Desc) (desc_get current))
                     (\<lambda>d'. if d' then Inr (False, realm) else Inr (True, realm)))
         else Inr (True, realm)))"

text \<open>Step 10: the fields of \<open>Desc\<close> are written to the property.\<close>

definition apply_change ::
  "Realm \<Rightarrow> ref option \<Rightarrow> PropertyKeyValue option \<Rightarrow> Descriptor \<Rightarrow> Descriptor
    \<Rightarrow> error + (bool \<times> Realm)" where
  "apply_change realm Ob P Desc current =
     (case Ob of
        None \<Rightarrow> Inr (True, realm)
      | Some ob \<Rightarrow>
          (case P of
             None \<Rightarrow> Inl InvariantViolation
           | Some p \<Rightarrow>
               (let key = InternalGetPropertiesKey p;
                    realm1 = recordModifiedProperty realm (ob, key);
                    (propertyBinding, property) =
                      (case get_binding realm ob p of
                         None \<Rightarrow> (\<lparr>descriptor = None, binding_object = ob, binding_key = key\<rparr>, current)
                       | Some b \<Rightarrow>
                           (case descriptor b of
                              None \<Rightarrow> (b, current)
                            | Some d \<Rightarrow> (b, d)));
                    realm2 = store_binding realm1 ob p
                      (propertyBinding\<lparr>descriptor := Some (assign_fields property Desc)\<rparr>)
                in Inr (True, InternalUpdatedProperty realm2 ob p))))"

definition ValidateAndApplyPropertyDescriptor ::
  "Realm \<Rightarrow> ref option \<Rightarrow> PropertyKeyValue option \<Rightarrow> bool \<Rightarrow> Descriptor
    \<Rightarrow> Descriptor option \<Rightarrow> error + (bool \<times> Realm)" where
  "ValidateAndApplyPropertyDescriptor realm Ob P extensible Desc current =
     (if Ob \<noteq> None \<and> P = None then Inl InvariantViolation
      else case current of
        None \<Rightarrow>
          if \<not> extensible then Inr (False, realm)
          else create_property realm Ob P Desc
      | Some cur \<Rightarrow>
          andThen (ThrowIfMightHaveBeenDeleted (desc_value cur))
            (\<lambda>u. if length (Object_keys Desc) = 0 then Inr (True, realm)
                  else if identical_fields Desc cur (Object_keys Desc) then Inr (True, realm)
                  else andThen (validate_change realm Ob P Desc cur)
                    (\<lambda>(ok, realm1).
                        if \<not> ok then Inr (False, realm1)
                        else apply_change realm1 Ob P Desc cur)))"

definition IsCompatiblePropertyDescriptor ::
  "Realm \<Rightarrow> bool \<Rightarrow> Descriptor \<Rightarrow> Descriptor option \<Rightarrow> error + (bool \<times> Realm)" where
  "IsCompatiblePropertyDescriptor realm extensible Desc current =
     ValidateAndApplyPropertyDescriptor realm None None extensible Desc current"

section \<open>Numbers and strings\<close>

text \<open>
  The conversions of \<^verbatim>\<open>methods/to.js\<close> are not part of the sources at hand. The results of
  \<^verbatim>\<open>CanonicalNumericIndexString\<close> are numbers; a number that is not an integer is
  represented only where a check of the sources tells it apart.
\<close>

datatype number = Integer int | NegativeZero | NaN | PositiveInfinity | NegativeInfinity

fun string_of_nat :: "nat \<Rightarrow> string" where
  "string_of_nat n =
     (if n < 10 then [char_of (48 + n)]
      else string_of_nat (n div 10) @ [char_of (48 + n mod 10)])"

declare string_of_nat.simps [simp del]

text \<open>Modelled from the spec: \<^verbatim>\<open>ToString\<close> of an integer is its decimal numeral.\<close>

definition ToString :: "int \<Rightarrow> string" where
  "ToString i = (if i < 0 then CHR ''-'' # string_of_nat (nat (- i)) else string_of_nat (nat i))"

definition is_digit :: "char \<Rightarrow> bool" where
  "is_digit c = (CHR ''0'' \<le> c \<and> c \<le> CHR ''9'')"

definition nat_of_digits :: "string \<Rightarrow> nat" where
  "nat_of_digits ds = foldl (\<lambda>a c. 10 * a + (of_char c - 48)) 0 ds"

text \<open>
  Modelled from the spec: \<^verbatim>\<open>CanonicalNumericIndexString\<close> gives the number that a string
  is the canonical numeral of, and nothing for any other string. The numerals of fractions
  are not recognised here; the sources reject them one step later, with the same result.
\<close>

definition CanonicalNumericIndexString :: "string \<Rightarrow> number option" where
  "CanonicalNumericIndexString P =
     (if P = ''-0'' then Some NegativeZero
      else if P = ''NaN'' then Some NaN
      else if P = ''Infinity'' then Some PositiveInfinity
      else if P = ''-Infinity'' then Some NegativeInfinity
      else
        (let n = (case P of
                    c # ds \<Rightarrow> if c = CHR ''-'' then - int (nat_of_digits ds)
                              else int (nat_of_digits P)
                  | [] \<Rightarrow> 0)
         in if ToString n = P then Some (Integer n) else None))"

text \<open>\<^verbatim>\<open>IsInteger\<close>: every finite number of this model is an integer.\<close>

definition IsInteger :: "number \<Rightarrow> bool" where
  "IsInteger argument =
     (if argument = NaN \<or> argument = PositiveInfinity \<or> argument = NegativeInfinity
      then False
      else True)"

text \<open>
  The built-in \<^verbatim>\<open>parseInt(x, 10)\<close>: leading white space is skipped, a sign is read, and the
  longest prefix of digits is the value; with no digit the result is NaN (\<open>None\<close>).
\<close>

definition is_space :: "char \<Rightarrow> bool" where
  "is_space c = (c = CHR '' '' \<or> c = CHR 0x09 \<or> c = CHR 0x0A \<or> c = CHR 0x0B
                 \<or> c = CHR 0x0C \<or> c = CHR 0x0D)"

definition parseInt :: "string \<Rightarrow> int option" where
  "parseInt x =
     (let s = dropWhile is_space x;
          (sign, r) = (case s of
                         c # cs \<Rightarrow> if c = CHR ''-'' then (- 1, cs)
                                   else if c = CHR ''+'' then (1, cs) else (1, s)
                       | [] \<Rightarrow> (1, s));
          ds = takeWhile is_digit r
      in if ds = [] then None else Some (sign * int (nat_of_digits ds)))"

section \<open>The string wrapper (values/StringExotic.js)\<close>

definition StringExotic_GetOwnProperty ::
  "Realm \<Rightarrow> ref \<Rightarrow> PropertyKeyValue \<Rightarrow> error + (Descriptor option \<times> Realm)" where
  "StringExotic_GetOwnProperty realm this P =
     andThen (OrdinaryGetOwnProperty realm this P)
       (\<lambda>(desc, realm1).
          case desc of
            Some d \<Rightarrow>
              andThen (ThrowIfMightHaveBeenDeleted (desc_value d)) (\<lambda>u. Inr (Some d, realm1))
          | None \<Rightarrow>
              (case InternalGetPropertiesKey P of
                 KSymbol s \<Rightarrow> Inr (None, realm1)
               | KString p \<Rightarrow>
                   (case CanonicalNumericIndexString p of
                      None \<Rightarrow> Inr (None, realm1)
                    | Some index \<Rightarrow>
                        if IsInteger index = False then Inr (None, realm1)
                        else if index = NegativeZero then Inr (None, realm1)
                        else
                          (case kind (heap realm1 this) of
                             StringExotic (Some str) \<Rightarrow>
                               (case index of
                                  Integer i \<Rightarrow>
                                    if i < 0 \<or> int (length str) \<le> i then Inr (None, realm1)
                                    else
                                      Inr (Some
                                        \<lparr>desc_value = Some (StringValue [str ! nat i]),
                                         desc_writable = Some False,
                                         desc_get = None, desc_set = None,
                                         desc_enumerable = Some True,
                                         desc_configurable = Some False\<rparr>, realm1)
                                | _ \<Rightarrow> Inr (None, realm1))
                           | _ \<Rightarrow> Inl InvariantViolation))))"

section \<open>The internal methods of an object\<close>

text \<open>
  The internal methods \<^verbatim>\<open>$GetOwnProperty\<close>, \<^verbatim>\<open>$Delete\<close>, \<^verbatim>\<open>$DefineOwnProperty\<close>,
  \<^verbatim>\<open>$GetPrototypeOf\<close> and \<^verbatim>\<open>$Set\<close> of an object dispatch on its class. The string wrapper
  overrides \<^verbatim>\<open>$GetOwnProperty\<close> and \<^verbatim>\<open>$OwnPropertyKeys\<close>; everything else is the
  ordinary algorithm of the object class.
\<close>

definition GetOwnProperty ::
  "Realm \<Rightarrow> ref \<Rightarrow> PropertyKeyValue \<Rightarrow> error + (Descriptor option \<times> Realm)" where
  "GetOwnProperty realm Ob P =
     (case kind (heap realm Ob) of
        StringExotic str \<Rightarrow> StringExotic_GetOwnProperty realm Ob P
      | _ \<Rightarrow> OrdinaryGetOwnProperty realm Ob P)"

definition GetPrototypeOf :: "Realm \<Rightarrow> ref \<Rightarrow> val" where
  "GetPrototypeOf realm Ob = Prototype (heap realm Ob)"

definition getExtensible :: "Realm \<Rightarrow> ref \<Rightarrow> bool" where
  "getExtensible realm Ob = Extensible (heap realm Ob)"

definition OrdinaryDelete :: "Realm \<Rightarrow> ref \<Rightarrow> PropertyKeyValue \<Rightarrow> error + (bool \<times> Realm)" where
  "OrdinaryDelete realm Ob P =
     andThen (GetOwnProperty realm Ob P)
       (\<lambda>(desc, realm1).
          case desc of
            None \<Rightarrow> Inr (True, realm1)
          | Some d \<Rightarrow>
              if desc_configurable d = Some True then
                (case get_binding realm1 Ob P of
                   None \<Rightarrow> Inl InvariantViolation
                 | Some propertyBinding \<Rightarrow>
                     (let realm2 = recordModifiedProperty realm1 (Ob, InternalGetPropertiesKey P);
                          realm3 = store_binding realm2 Ob P (propertyBinding\<lparr>descriptor := None\<rparr>)
                      in Inr (True, InternalUpdatedProperty realm3 Ob P)))
              else Inr (False, realm1))"

definition Delete :: "Realm \<Rightarrow> ref \<Rightarrow> PropertyKeyValue \<Rightarrow> error + (bool \<times> Realm)" where
  "Delete realm Ob P = OrdinaryDelete realm Ob P"

definition OrdinaryDefineOwnProperty ::
  "Realm \<Rightarrow> ref \<Rightarrow> PropertyKeyValue \<Rightarrow> Descriptor \<Rightarrow> error + (bool \<times> Realm)" where
  "OrdinaryDefineOwnProperty realm Ob P Desc =
     andThen (GetOwnProperty realm Ob P)
       (\<lambda>(current, realm1).
          let extensible = getExtensible realm1 Ob
          in ValidateAndApplyPropertyDescriptor realm1 (Some Ob) (Some P) extensible Desc current)"

definition DefineOwnProperty ::
  "Realm \<Rightarrow> ref \<Rightarrow> PropertyKeyValue \<Rightarrow> Descriptor \<Rightarrow> error + (bool \<times> Realm)" where
  "DefineOwnProperty realm Ob P Desc = OrdinaryDefineOwnProperty realm Ob P Desc"

text \<open>
  Modelled from the spec: \<^verbatim>\<open>CreateDataProperty\<close> (\<^verbatim>\<open>methods/create.js\<close>) defines a writable,
  enumerable and configurable data property through \<^verbatim>\<open>$DefineOwnProperty\<close>.
\<close>

definition CreateDataProperty ::
  "Realm \<Rightarrow> ref \<Rightarrow> PropertyKeyValue \<Rightarrow> val \<Rightarrow> error + (bool \<times> Realm)" where
  "CreateDataProperty realm Ob P V =
     DefineOwnProperty realm Ob P
       \<lparr>desc_value = Some V, desc_writable = Some True, desc_get = None, desc_set = None,
        desc_enumerable = Some True, desc_configurable = Some True\<rparr>"

section \<open>Calls (methods/call.js, methods/is.js)\<close>

text \<open>
  Modelled from the spec: the class of a value as \<^verbatim>\<open>HasCompatibleType\<close> and
  \<^verbatim>\<open>HasSomeCompatibleType\<close> (\<^verbatim>\<open>methods/has.js\<close>) see it. A function object has the class of
  functions, which is a subclass of the class of objects.
\<close>

definition classOf :: "Realm \<Rightarrow> val \<Rightarrow> ValueType" where
  "classOf realm v =
     (case v of
        ObjectValue r \<Rightarrow>
          (case kind (heap realm r) of FunctionObject m n \<Rightarrow> FunctionType | _ \<Rightarrow> ObjectType)
      | _ \<Rightarrow> getType v)"

definition isTypeCompatibleWith :: "ValueType \<Rightarrow> ValueType \<Rightarrow> bool" where
  "isTypeCompatibleWith a b = (a = b \<or> (a = FunctionType \<and> b = ObjectType))"

definition HasCompatibleType :: "Realm \<Rightarrow> val \<Rightarrow> ValueType \<Rightarrow> bool" where
  "HasCompatibleType realm v t = isTypeCompatibleWith (classOf realm v) t"

definition HasSomeCompatibleType :: "Realm \<Rightarrow> val \<Rightarrow> ValueType list \<Rightarrow> bool" where
  "HasSomeCompatibleType realm v manyTypes =
     list_ex (isTypeCompatibleWith (classOf realm v)) manyTypes"

definition throwIfNotConcreteObject :: "val \<Rightarrow> error + ref" where
  "throwIfNotConcreteObject v =
     (case v of
        ObjectValue r \<Rightarrow> Inr r
      | AbstractValue i t d k \<Rightarrow> Inl IntrospectionError
      | _ \<Rightarrow> Inl InvariantViolation)"

text \<open>Only function objects have a \<^verbatim>\<open>$Call\<close> internal method.\<close>

definition hasCall :: "Obj \<Rightarrow> bool" where
  "hasCall obj = (case kind obj of FunctionObject m n \<Rightarrow> True | _ \<Rightarrow> False)"

definition IsCallable :: "Realm \<Rightarrow> val \<Rightarrow> error + bool" where
  "IsCallable realm func =
     (if \<not> mightBeObject func then Inr False
      else if HasCompatibleType realm func FunctionType then Inr True
      else andThen (throwIfNotConcreteObject func) (\<lambda>r. Inr (hasCall (heap realm r))))"

text \<open>
  What the \<^verbatim>\<open>$Call\<close> internal method of a function does (it runs the body of the function)
  is a parameter: from the realm, the function, the this-value and the arguments to an
  error or a result and the realm after the call.
\<close>

type_synonym call_hook = "Realm \<Rightarrow> val \<Rightarrow> val \<Rightarrow> val list \<Rightarrow> error + (val \<times> Realm)"

definition Call :: "call_hook \<Rightarrow> Realm \<Rightarrow> val \<Rightarrow> val \<Rightarrow> val list \<Rightarrow> error + (val \<times> Realm)" where
  "Call call realm F V argsList =
     andThen (IsCallable realm F)
       (\<lambda>callable.
          if callable = False then Inl (Abrupt (ThrowCompletion TypeError (Some ''not callable'')))
          else
            (case F of
               ObjectValue r \<Rightarrow>
                 if \<not> hasCall (heap realm r) then Inl InvariantViolation
                 else call realm F V argsList
             | _ \<Rightarrow> Inl InvariantViolation))"

section \<open>OrdinarySet\<close>

definition descValue :: "Descriptor option \<Rightarrow> val" where
  "descValue desc = (case desc of None \<Rightarrow> UndefinedValue | Some d \<Rightarrow> or_undefined (desc_value d))"

text \<open>
  \<^verbatim>\<open>AbstractValue.throwIntrospectionError(v)\<close> after \<^verbatim>\<open>invariant(v instanceof AbstractValue)\<close>.
\<close>

definition throwIntrospectionError :: "val \<Rightarrow> error" where
  "throwIntrospectionError v = (if isAbstract v then IntrospectionError else InvariantViolation)"

text \<open>
  The recursion of \<^verbatim>\<open>parentPermitsChildPropertyCreation\<close> and of \<^verbatim>\<open>OrdinarySet\<close> follows
  the prototype chain, which a heap can close into a cycle: the first argument bounds the
  number of objects visited, and \<open>None\<close> is the call that does not return within it.
\<close>

fun parentPermitsChildPropertyCreation ::
  "nat \<Rightarrow> Realm \<Rightarrow> ref \<Rightarrow> PropertyKeyValue \<Rightarrow> (error + (bool \<times> Realm)) option" where
  "parentPermitsChildPropertyCreation 0 realm Ob P = None"
| "parentPermitsChildPropertyCreation (Suc n) realm Ob P =
     (case GetOwnProperty realm Ob P of
        Inl e \<Rightarrow> Some (Inl e)
      | Inr (ownDesc, realm1) \<Rightarrow>
          (let ownDescValue = descValue ownDesc;
               writableData =
                 (IsDataDescriptor ownDesc \<and> (case ownDesc of None \<Rightarrow> False
                                               | Some d \<Rightarrow> desc_writable d = Some True))
           in if ownDesc = None \<or> mightHaveBeenDeleted ownDescValue then
                (let parent = GetPrototypeOf realm1 Ob
                 in if isAbstract parent then Some (Inl IntrospectionError)
                    else
                      (case (case parent of
                               NullValue \<Rightarrow> Some (Inr (True, realm1))
                             | ObjectValue pr \<Rightarrow> parentPermitsChildPropertyCreation n realm1 pr P
                             | _ \<Rightarrow> Some (Inl InvariantViolation)) of
                         None \<Rightarrow> None
                       | Some (Inl e) \<Rightarrow> Some (Inl e)
                       | Some (Inr (permits, realm2)) \<Rightarrow>
                           if \<not> permits then Some (Inr (False, realm2))
                           else if ownDesc = None then Some (Inr (True, realm2))
                           else Some (Inr (writableData, realm2))))
              else Some (Inr (writableData, realm1))))"

text \<open>Steps 4 to 9 of \<^verbatim>\<open>OrdinarySet\<close>, once \<open>ownDesc\<close> is settled.\<close>

definition OrdinarySet_steps ::
  "call_hook \<Rightarrow> Realm \<Rightarrow> PropertyKeyValue \<Rightarrow> val \<Rightarrow> val \<Rightarrow> Descriptor \<Rightarrow> val
    \<Rightarrow> error + (bool \<times> Realm)" where
  "OrdinarySet_steps call realm P V Receiver ownDesc ownDescValue =
     (let weakDeletion = mightHaveBeenDeleted V in
      if IsDataDescriptor (Some ownDesc) then
        (if desc_writable ownDesc \<noteq> Some True \<and> \<not> weakDeletion then
           (if mightHaveBeenDeleted ownDescValue then Inl (throwIntrospectionError ownDescValue)
            else Inr (False, realm))
         else
           andThen (throwIfNotConcrete Receiver)
             (\<lambda>Receiver1.
                case Receiver1 of
                  ObjectValue rcv \<Rightarrow>
                    andThen (GetOwnProperty realm rcv P)
                      (\<lambda>(existingDescriptor, realm1).
                         case existingDescriptor of
                           Some ed \<Rightarrow>
                             (let existingDescValue = or_undefined (desc_value ed) in
                              if IsAccessorDescriptor (Some ed) then
                                (if mightHaveBeenDeleted existingDescValue
                                 then Inl InvariantViolation
                                 else Inr (False, realm1))
                              else if desc_writable ed \<noteq> Some True
                                      \<and> \<not> (weakDeletion \<and> desc_configurable ed = Some True) then
                                (if mightHaveBeenDeleted existingDescValue
                                 then Inl (throwIntrospectionError existingDescValue)
                                 else Inr (False, realm1))
                              else
                                (let valueDesc =
                                       (if weakDeletion then ed\<lparr>desc_value := Some V\<rparr>
                                        else empty_Descriptor\<lparr>desc_value := Some V\<rparr>)
                                 in andThen
                                      (if weakDeletion \<or> mightHaveBeenDeleted existingDescValue
                                       then Delete realm1 rcv P
                                       else Inr (True, realm1))
                                      (\<lambda>(deleted, realm2). DefineOwnProperty realm2 rcv P valueDesc)))
                         | None \<Rightarrow> CreateDataProperty realm1 rcv P V)
                | _ \<Rightarrow> Inr (False, realm)))
      else if \<not> IsAccessorDescriptor (Some ownDesc) then Inl InvariantViolation
      else
        (case desc_set ownDesc of
           None \<Rightarrow> Inr (False, realm)
         | Some setter \<Rightarrow>
             if setter = UndefinedValue then Inr (False, realm)
             else
               andThen (throwIfNotConcrete setter)
                 (\<lambda>setter1.
                    andThen (Call call realm setter1 Receiver [V])
                      (\<lambda>(result, realm1). Inr (True, realm1)))))"

fun OrdinarySet ::
  "call_hook \<Rightarrow> nat \<Rightarrow> Realm \<Rightarrow> ref \<Rightarrow> PropertyKeyValue \<Rightarrow> val \<Rightarrow> val
    \<Rightarrow> (error + (bool \<times> Realm)) option" where
  "OrdinarySet call 0 realm Ob P V Receiver = None"
| "OrdinarySet call (Suc n) realm Ob P V Receiver =
     (case GetOwnProperty realm Ob P of
        Inl e \<Rightarrow> Some (Inl e)
      | Inr (ownDesc, realm1) \<Rightarrow>
          (let ownDescValue = descValue ownDesc;
               ownDesc1 =
                 (case ownDesc of
                    None \<Rightarrow>
                      \<lparr>desc_value = Some UndefinedValue, desc_writable = Some True,
                       desc_get = None, desc_set = None,
                       desc_enumerable = Some True, desc_configurable = Some True\<rparr>
                  | Some od \<Rightarrow> od)
           in if ownDesc = None \<or> mightHaveBeenDeleted ownDescValue then
                (let parent = GetPrototypeOf realm1 Ob
                 in if isAbstract parent then Some (Inl IntrospectionError)
                    else
                      (case parent of
                         NullValue \<Rightarrow>
                           Some (OrdinarySet_steps call realm1 P V Receiver ownDesc1 ownDescValue)
                       | ObjectValue pr \<Rightarrow>
                           if ownDesc = None then OrdinarySet call n realm1 pr P V Receiver
                           else
                             (case parentPermitsChildPropertyCreation n realm1 pr P of
                                None \<Rightarrow> None
                              | Some (Inl e) \<Rightarrow> Some (Inl e)
                              | Some (Inr (permits, realm2)) \<Rightarrow>
                                  if \<not> permits
                                  then Some (Inl (throwIntrospectionError ownDescValue))
                                  else Some (OrdinarySet_steps call realm2 P V Receiver ownDesc1
                                               ownDescValue))
                       | _ \<Rightarrow> Some (Inl InvariantViolation)))
              else Some (OrdinarySet_steps call realm1 P V Receiver ownDesc1 ownDescValue)))"

section \<open>The wrappers that throw\<close>




section \<open>ArraySetLength\<close>

text \<open>
  \<^verbatim>\<open>ToUint32\<close> and \<^verbatim>\<open>ToNumber\<close> (\<^verbatim>\<open>methods/to.js\<close>) are parameters of \<^verbatim>\<open>ArraySetLength\<close>:
  they give an integer or fail. On a number value they are \<open>ToUint32_number\<close> and
  \<open>ToNumber_number\<close>.
\<close>

type_synonym to_number = "Realm \<Rightarrow> val \<Rightarrow> error + int"

definition ToNumber_number :: to_number where
  "ToNumber_number realm v =
     (case v of
        NumberValue n \<Rightarrow> Inr n
      | AbstractValue i t d k \<Rightarrow> Inl IntrospectionError
      | _ \<Rightarrow> Inl (Abrupt (ThrowCompletion TypeError None)))"

definition ToUint32_number :: to_number where
  "ToUint32_number realm v =
     (case v of
        NumberValue n \<Rightarrow> Inr (n mod 2 ^ 32)
      | AbstractValue i t d k \<Rightarrow> Inl IntrospectionError
      | _ \<Rightarrow> Inl (Abrupt (ThrowCompletion TypeError None)))"

text \<open>
  The indices to delete. \<^verbatim>\<open>Array.prototype.sort\<close> with no comparison function orders its
  elements by their string forms.
\<close>

definition string_sort :: "int list \<Rightarrow> int list" where
  "string_sort xs = sort_key ToString xs"

definition keys_to_delete :: "Realm \<Rightarrow> ref \<Rightarrow> int \<Rightarrow> int \<Rightarrow> int list" where
  "keys_to_delete realm A newLen oldLenCopy =
     rev (string_sort
       (filter (\<lambda>x. newLen \<le> x \<and> x \<le> oldLenCopy)
          (List.map_filter
             (\<lambda>k. case k of KString x \<Rightarrow> parseInt x | KSymbol s \<Rightarrow> None)
             (map fst (properties (heap realm A))))))"

text \<open>Step 16: the loop over the indices, leaving at the first delete that is refused.\<close>

fun delete_keys ::
  "Realm \<Rightarrow> ref \<Rightarrow> Descriptor \<Rightarrow> bool \<Rightarrow> int list \<Rightarrow> error + (bool \<times> Realm)" where
  "delete_keys realm A newLenDesc newWritable [] =
     (if \<not> newWritable then
        OrdinaryDefineOwnProperty realm A (PString ''length'')
          (empty_Descriptor\<lparr>desc_writable := Some False\<rparr>)
      else Inr (True, realm))"
| "delete_keys realm A newLenDesc newWritable (key # keys) =
     (let oldLen = key in
      andThen (Delete realm A (PString (ToString oldLen)))
        (\<lambda>(deleteSucceeded, realm1).
           if deleteSucceeded = False then
             (let newLenDesc1 = newLenDesc\<lparr>desc_value := Some (NumberValue (oldLen + 1))\<rparr>;
                  newLenDesc2 =
                    (if newWritable = False then newLenDesc1\<lparr>desc_writable := Some False\<rparr>
                     else newLenDesc1)
              in andThen (OrdinaryDefineOwnProperty realm1 A (PString ''length'') newLenDesc2)
                   (\<lambda>(succeeded, realm2). Inr (False, realm2)))
           else delete_keys realm1 A newLenDesc newWritable keys))"

definition ArraySetLength ::
  "to_number \<Rightarrow> to_number \<Rightarrow> Realm \<Rightarrow> ref \<Rightarrow> Descriptor \<Rightarrow> error + (bool \<times> Realm)" where
  "ArraySetLength ToUint32 ToNumber realm A Desc =
     (case desc_value Desc of
        None \<Rightarrow> OrdinaryDefineOwnProperty realm A (PString ''length'') Desc
      | Some DescValue \<Rightarrow>
          andThen (ToUint32 realm DescValue)
            (\<lambda>newLen.
               andThen (ToNumber realm DescValue)
                 (\<lambda>numberLen.
                    if newLen \<noteq> numberLen
                    then Inl (Abrupt (ThrowCompletion RangeError (Some ''should be a uint'')))
                    else
                      (let newLenDesc = Desc\<lparr>desc_value := Some (NumberValue newLen)\<rparr> in
                       andThen (OrdinaryGetOwnProperty realm A (PString ''length''))
                         (\<lambda>(oldLenDesc, realm1).
                            case oldLenDesc of
                              None \<Rightarrow> Inl InvariantViolation
                            | Some old \<Rightarrow>
                                if IsAccessorDescriptor (Some old) then Inl InvariantViolation
                                else
                                  (case desc_value old of
                                     None \<Rightarrow> Inl InvariantViolation
                                   | Some oldLenValue \<Rightarrow>
                                       andThen (throwIfNotConcrete oldLenValue)
                                         (\<lambda>oldLenConcrete.
                                            case oldLenConcrete of
                                              NumberValue oldLen \<Rightarrow>
                                                if newLen \<ge> oldLen then
                                                  OrdinaryDefineOwnProperty realm1 A
                                                    (PString ''length'') newLenDesc
                                                else if desc_writable old \<noteq> Some True
                                                then Inr (False, realm1)
                                                else
                                                  (let newWritable =
                                                         (desc_writable newLenDesc = None
                                                          \<or> desc_writable newLenDesc = Some True);
                                                       newLenDesc1 =
                                                         (if newWritable then newLenDesc
                                                          else newLenDesc
                                                                 \<lparr>desc_writable := Some True\<rparr>)
                                                   in andThen
                                                        (OrdinaryDefineOwnProperty realm1 A
                                                           (PString ''length'') newLenDesc1)
                                                        (\<lambda>(succeeded, realm2).
                                                           if succeeded = False
                                                           then Inr (False, realm2)
                                                           else delete_keys realm2 A newLenDesc1
                                                                  newWritable
                                                                  (keys_to_delete realm2 A newLen
                                                                     oldLen)))
                                            | _ \<Rightarrow> Inl InvariantViolation)))))))"

section \<open>OwnPropertyKeys\<close>

text \<open>
  Modelled from the spec: \<^verbatim>\<open>ToUint32\<close> of a string, as \<^verbatim>\<open>IsArrayIndex\<close> uses it (a string
  that is not a numeral gives 0), and \<^verbatim>\<open>getOwnPropertyKeysArray\<close>, the string keys of the
  live own properties in creation order.
\<close>

definition ToUint32_string :: "string \<Rightarrow> int" where
  "ToUint32_string s =
     (if s \<noteq> [] \<and> list_all is_digit s then int (nat_of_digits s) mod 2 ^ 32 else 0)"

definition IsArrayIndex :: "string \<Rightarrow> bool" where
  "IsArrayIndex key = (let i = ToUint32_string key in i \<noteq> 2 ^ 32 - 1 \<and> ToString i = key)"

definition getOwnPropertyKeysArray :: "Obj \<Rightarrow> string list" where
  "getOwnPropertyKeysArray obj =
     List.map_filter
       (\<lambda>(k, b). case k of
                    KString x \<Rightarrow> if descriptor b = None then None else Some x
                  | KSymbol s \<Rightarrow> None)
       (properties obj)"

definition symbol_keys :: "Obj \<Rightarrow> PropertyKeyValue list" where
  "symbol_keys obj =
     List.map_filter (\<lambda>k. case k of KSymbol s \<Rightarrow> Some (PSymbolValue s) | KString x \<Rightarrow> None)
       (map fst (symbols obj))"

definition StringExotic_OwnPropertyKeys :: "Realm \<Rightarrow> ref \<Rightarrow> error + PropertyKeyValue list" where
  "StringExotic_OwnPropertyKeys realm this =
     (case kind (heap realm this) of
        StringExotic (Some str) \<Rightarrow>
          (let len = int (length str);
               props = getOwnPropertyKeysArray (heap realm this)
           in Inr
                (map (\<lambda>i. PStringValue (ToString (int i))) [0..<length str]
                 @ map (\<lambda>k. PStringValue (ToString k))
                     (sort (filter (\<lambda>x. x \<ge> len)
                        (List.map_filter parseInt (filter IsArrayIndex props))))
                 @ map PStringValue (filter (\<lambda>x. \<not> IsArrayIndex x) props)
                 @ symbol_keys (heap realm this)))
      | _ \<Rightarrow> Inl InvariantViolation)"

text \<open>
  Modelled from the spec: the ordinary \<^verbatim>\<open>$OwnPropertyKeys\<close>: the index keys in ascending
  order, then the other string keys and then the symbol keys, each in creation order.
\<close>

definition OrdinaryOwnPropertyKeys :: "Realm \<Rightarrow> ref \<Rightarrow> error + PropertyKeyValue list" where
  "OrdinaryOwnPropertyKeys realm Ob =
     (let props = getOwnPropertyKeysArray (heap realm Ob)
      in Inr
           (map (\<lambda>k. PStringValue (ToString k))
              (sort (List.map_filter parseInt (filter IsArrayIndex props)))
            @ map PStringValue (filter (\<lambda>x. \<not> IsArrayIndex x) props)
            @ symbol_keys (heap realm Ob)))"

definition OwnPropertyKeys :: "Realm \<Rightarrow> ref \<Rightarrow> error + PropertyKeyValue list" where
  "OwnPropertyKeys realm Ob =
     (case kind (heap realm Ob) of
        StringExotic str \<Rightarrow> StringExotic_OwnPropertyKeys realm Ob
      | _ \<Rightarrow> OrdinaryOwnPropertyKeys realm Ob)"

section \<open>EnumerateObjectProperties\<close>

text \<open>
  The iterator that \<^verbatim>\<open>EnumerateObjectProperties\<close> returns is the closure of its \<^verbatim>\<open>next\<close>
  method: the variables \<^verbatim>\<open>visited\<close>, \<^verbatim>\<open>obj\<close>, \<^verbatim>\<open>keys\<close> and \<^verbatim>\<open>index\<close>.
\<close>

record Enumerator =
  visited :: "string set"
  obj :: ref
  keys :: "PropertyKeyValue list"
  index :: nat

definition EnumerateObjectProperties :: "Realm \<Rightarrow> ref \<Rightarrow> error + Enumerator" where
  "EnumerateObjectProperties realm Ob =
     andThen (OwnPropertyKeys realm Ob)
       (\<lambda>ks. Inr \<lparr>visited = {}, obj = Ob, keys = ks, index = 0\<rparr>)"

text \<open>
  The block \<^verbatim>\<open>if (index >= keys.length)\<close> at the head of the loop of \<^verbatim>\<open>next\<close>: \<open>None\<close> is
  the return of the result that is done. The keys of a prototype that is an abstract value
  cannot be listed, which is an IntrospectionError here.
\<close>

definition next_object :: "Realm \<Rightarrow> Enumerator \<Rightarrow> error + Enumerator option" where
  "next_object realm it =
     (if index it \<ge> length (keys it) then
        (case GetPrototypeOf realm (obj it) of
           NullValue \<Rightarrow> Inr None
         | ObjectValue proto \<Rightarrow>
             andThen (OwnPropertyKeys realm proto)
               (\<lambda>ks. Inr (Some (it\<lparr>obj := proto, keys := ks, index := 0\<rparr>)))
         | AbstractValue i t d k \<Rightarrow> Inl IntrospectionError
         | _ \<Rightarrow> Inl InvariantViolation)
      else Inr (Some it))"

text \<open>
  One turn of the loop \<^verbatim>\<open>while (true)\<close> of the method \<^verbatim>\<open>next\<close>: it returns a result (the key
  yielded, or \<open>None\<close> for the result that is done) or continues with the next turn.
\<close>

datatype turn = Return "val option" Enumerator Realm | Continue Enumerator Realm

definition next_turn :: "Realm \<Rightarrow> Enumerator \<Rightarrow> error + turn" where
  "next_turn realm it =
     (case next_object realm it of
        Inl e \<Rightarrow> Inl e
      | Inr None \<Rightarrow> Inr (Return None it realm)
      | Inr (Some it1) \<Rightarrow>
          (case (if index it1 < length (keys it1) then Some (keys it1 ! index it1) else None) of
             Some (PStringValue key) \<Rightarrow>
               (case GetOwnProperty realm (obj it1) (PStringValue key) of
                  Inl e \<Rightarrow> Inl e
                | Inr (desc, realm1) \<Rightarrow>
                    (case (case desc of
                             None \<Rightarrow> None
                           | Some d \<Rightarrow> if desc_enumerable d \<noteq> Some True then Some d else None) of
                       Some d \<Rightarrow>
                         (case ThrowIfMightHaveBeenDeleted (desc_value d) of
                            Inl e \<Rightarrow> Inl e
                          | Inr u \<Rightarrow>
                              Inr (Continue
                                (it1\<lparr>index := index it1 + 1,
                                   visited := insert key (visited it1)\<rparr>) realm1))
                     | None \<Rightarrow>
                         if key \<in> visited it1
                         then Inr (Continue (it1\<lparr>index := index it1 + 1\<rparr>) realm1)
                         else Inr (Return (Some (StringValue key))
                                     (it1\<lparr>visited := insert key (visited it1)\<rparr>) realm1)))
           | _ \<Rightarrow> Inr (Continue (it1\<lparr>index := index it1 + 1\<rparr>) realm)))"

text \<open>
  The method \<^verbatim>\<open>next\<close> of the iterator: each turn of its loop takes one unit of the first
  argument, and \<open>None\<close> is the call that does not return within it. The result is the key
  yielded (\<open>None\<close> for the result that is done), the iterator and the realm.
\<close>

fun iterator_next ::
  "nat \<Rightarrow> Realm \<Rightarrow> Enumerator \<Rightarrow> (error + (val option \<times> Enumerator \<times> Realm)) option" where
  "iterator_next 0 realm it = None"
| "iterator_next (Suc n) realm it =
     (case next_turn realm it of
        Inl e \<Rightarrow> Some (Inl e)
      | Inr (Return result it1 realm1) \<Rightarrow> Some (Inr (result, it1, realm1))
      | Inr (Continue it1 realm1) \<Rightarrow> iterator_next n realm1 it1)"

text \<open>The keys that repeated calls of \<^verbatim>\<open>next\<close> yield, up to the result that is done.\<close>

fun enumerate_keys :: "nat \<Rightarrow> Realm \<Rightarrow> Enumerator \<Rightarrow> (error + val list) option" where
  "enumerate_keys 0 realm it = None"
| "enumerate_keys (Suc n) realm it =
     (case iterator_next (Suc n) realm it of
        None \<Rightarrow> None
      | Some (Inl e) \<Rightarrow> Some (Inl e)
      | Some (Inr (None, it1, realm1)) \<Rightarrow> Some (Inr [])
      | Some (Inr (Some key, it1, realm1)) \<Rightarrow>
          (case enumerate_keys n realm1 it1 of
             None \<Rightarrow> None
           | Some (Inl e) \<Rightarrow> Some (Inl e)
           | Some (Inr ks) \<Rightarrow> Some (Inr (key # ks))))"

text \<open>The prototype chain of an object reaches null within \<open>n\<close> steps.\<close>

fun reaches_null :: "nat \<Rightarrow> Realm \<Rightarrow> ref \<Rightarrow> bool" where
  "reaches_null 0 realm Ob = (Prototype (heap realm Ob) = NullValue)"
| "reaches_null (Suc n) realm Ob =
     (case Prototype (heap realm Ob) of
        NullValue \<Rightarrow> True
      | ObjectValue proto \<Rightarrow> reaches_null n realm proto
      | _ \<Rightarrow> False)"

section \<open>The this-binding and direct calls (methods/call.js)\<close>

text \<open>
  Modelled from the spec: \<^verbatim>\<open>BindThisValue\<close> of the environment record of a function
  (\<^verbatim>\<open>environment.js\<close>) sets the this-value once and returns it; a second binding is a
  ReferenceError.
\<close>

definition BindThisValue :: "EnvironmentRecord \<Rightarrow> val \<Rightarrow> error + (val \<times> EnvironmentRecord)" where
  "BindThisValue envRec V =
     (if ThisBindingStatus envRec = lexical_this then Inl InvariantViolation
      else if ThisBindingStatus envRec = initialized
      then Inl (Abrupt (ThrowCompletion ReferenceError None))
      else Inr (V, envRec\<lparr>ThisValue := Some V, ThisBindingStatus := initialized\<rparr>))"

text \<open>
  \<^verbatim>\<open>ToObjectPartial\<close>, \<^verbatim>\<open>ToObject\<close> and \<^verbatim>\<open>GetIterator\<close> are parameters: they give a value
  (an object) and the realm after the conversion, or fail.
\<close>

type_synonym conversion = "Realm \<Rightarrow> val \<Rightarrow> error + (val \<times> Realm)"

definition OrdinaryCallBindThis ::
  "conversion \<Rightarrow> Realm \<Rightarrow> ref \<Rightarrow> ExecutionContext \<Rightarrow> val
    \<Rightarrow> error + (val \<times> ExecutionContext \<times> Realm)" where
  "OrdinaryCallBindThis ToObjectPartial realm F calleeContext thisArgument =
     (case kind (heap realm F) of
        FunctionObject thisMode native \<Rightarrow>
          if thisMode = lexical then Inr (UndefinedValue, calleeContext, realm)
          else
            (let localEnv = lexicalEnvironment calleeContext in
             andThen
               (if thisMode = strict \<or> native then Inr (thisArgument, realm)
                else if HasSomeCompatibleType realm thisArgument [NullType, UndefinedType]
                then Inr (GlobalThisValue realm, realm)
                else ToObjectPartial realm thisArgument)
               (\<lambda>(thisValue, realm1).
                  case localEnv of
                    None \<Rightarrow> Inl InvariantViolation
                  | Some env \<Rightarrow>
                      andThen (BindThisValue (environmentRecord env) thisValue)
                        (\<lambda>(result, envRec).
                           Inr (result,
                                calleeContext\<lparr>lexicalEnvironment :=
                                  Some (LexicalEnvironment envRec (parent env))\<rparr>,
                                realm1))))
      | _ \<Rightarrow> Inl InvariantViolation)"

text \<open>
  Modelled from the spec: the stack of execution contexts of the realm.
  \<^verbatim>\<open>PrepareForTailCall\<close> suspends the running context and pops it.
\<close>

definition PrepareForTailCall :: "Realm \<Rightarrow> error + Realm" where
  "PrepareForTailCall realm =
     (case contextStack realm of
        [] \<Rightarrow> Inl InvariantViolation
      | leafContext # rest \<Rightarrow> Inr (realm\<lparr>contextStack := rest\<rparr>))"

text \<open>
  \<^verbatim>\<open>ArgumentListEvaluation\<close> evaluates syntax: it is a parameter that gives the argument
  values and the realm after their evaluation, or fails.
\<close>

definition EvaluateDirectCall ::
  "call_hook \<Rightarrow> (Realm \<Rightarrow> error + (val list \<times> Realm)) \<Rightarrow> Realm \<Rightarrow> val \<Rightarrow> val \<Rightarrow> bool option
    \<Rightarrow> error + (val \<times> Realm)" where
  "EvaluateDirectCall call ArgumentListEvaluation realm func thisValue tailPosition =
     andThen (ArgumentListEvaluation realm)
       (\<lambda>(argList, realm1).
          if isAbstract func \<and> getType func = FunctionType
          then Inr (derive realm1 TopType False [])
          else
            andThen (throwIfNotConcrete func)
              (\<lambda>func1.
                 case func1 of
                   ObjectValue r \<Rightarrow>
                     andThen (IsCallable realm1 func1)
                       (\<lambda>callable.
                          if \<not> callable
                          then Inl (Abrupt (ThrowCompletion TypeError (Some ''not callable'')))
                          else
                            andThen
                              (if tailPosition = Some True then PrepareForTailCall realm1
                               else Inr realm1)
                              (\<lambda>realm2. Call call realm2 func1 thisValue argList))
                 | _ \<Rightarrow> Inl (Abrupt (ThrowCompletion TypeError (Some ''not an object'')))))"

section \<open>ForInOfHeadEvaluation (evaluators)\<close>

datatype IterationKind = Iterate | Enumerate

datatype Iterator = KeyEnumerator Enumerator | ObjectIterator val

definition NewDeclarativeEnvironment :: "LexicalEnvironment option \<Rightarrow> LexicalEnvironment" where
  "NewDeclarativeEnvironment E =
     LexicalEnvironment \<lparr>bindings = [], ThisBindingStatus = lexical_this, ThisValue = None\<rparr> E"

definition CreateMutableBinding :: "EnvironmentRecord \<Rightarrow> string \<Rightarrow> EnvironmentRecord" where
  "CreateMutableBinding envRec name = envRec\<lparr>bindings := bindings envRec @ [(name, None)]\<rparr>"

definition setLexicalEnvironment :: "Realm \<Rightarrow> LexicalEnvironment option \<Rightarrow> error + Realm" where
  "setLexicalEnvironment realm env =
     (case contextStack realm of
        [] \<Rightarrow> Inl InvariantViolation
      | running # rest \<Rightarrow>
          Inr (realm\<lparr>contextStack := running\<lparr>lexicalEnvironment := env\<rparr> # rest\<rparr>))"

text \<open>
  Step 2 of \<^verbatim>\<open>ForInOfHeadEvaluation\<close>: with names to shadow, the expression is evaluated
  in a new environment that declares them, which becomes the environment of the running
  context.
\<close>

definition enterTDZ ::
  "Realm \<Rightarrow> LexicalEnvironment option \<Rightarrow> string list
    \<Rightarrow> error + (Realm \<times> LexicalEnvironment option)" where
  "enterTDZ realm env TDZnames =
     (case contextStack realm of
        [] \<Rightarrow> Inl InvariantViolation
      | running # rest \<Rightarrow>
          (let oldEnv = lexicalEnvironment running in
           if TDZnames \<noteq> [] then
             (case NewDeclarativeEnvironment oldEnv of
                LexicalEnvironment TDZEnvRec E \<Rightarrow>
                  (let TDZ = LexicalEnvironment (foldl CreateMutableBinding TDZEnvRec TDZnames) E
                   in andThen (setLexicalEnvironment realm (Some TDZ)) (\<lambda>r. Inr (r, Some TDZ))))
           else Inr (realm, env)))"

definition runningLexicalEnvironment :: "Realm \<Rightarrow> error + LexicalEnvironment option" where
  "runningLexicalEnvironment realm =
     (case contextStack realm of
        [] \<Rightarrow> Inl InvariantViolation
      | running # rest \<Rightarrow> Inr (lexicalEnvironment running))"

text \<open>
  The evaluation of the expression and \<^verbatim>\<open>GetValue\<close> are parameters. The \<^verbatim>\<open>finally\<close> block
  sets the environment of the running context back also when the evaluation fails; a
  failure carries no realm here.
\<close>

definition ForInOfHeadEvaluation ::
  "(Realm \<Rightarrow> LexicalEnvironment option \<Rightarrow> error + ('r \<times> Realm))
    \<Rightarrow> (Realm \<Rightarrow> 'r \<Rightarrow> error + (val \<times> Realm)) \<Rightarrow> conversion \<Rightarrow> conversion
    \<Rightarrow> Realm \<Rightarrow> LexicalEnvironment option \<Rightarrow> string list \<Rightarrow> IterationKind
    \<Rightarrow> error + (Iterator \<times> Realm)" where
  "ForInOfHeadEvaluation evaluate GetValue ToObject GetIterator realm env TDZnames iterationKind =
     andThen (runningLexicalEnvironment realm)
       (\<lambda>oldEnv.
          andThen (enterTDZ realm env TDZnames)
            (\<lambda>(realm1, env1).
               andThen (evaluate realm1 env1)
                 (\<lambda>(exprRef, realm2).
                    andThen (setLexicalEnvironment realm2 oldEnv)
                      (\<lambda>realm3.
                         andThen (GetValue realm3 exprRef)
                           (\<lambda>(exprValue, realm4).
                              if iterationKind = Enumerate then
                                (if HasSomeCompatibleType realm4 exprValue
                                      [NullType, UndefinedType]
                                 then Inl (Abrupt (BreakCompletion EmptyValue None))
                                 else
                                   andThen (throwIfNotConcrete exprValue)
                                     (\<lambda>v. andThen (ToObject realm4 v)
                                        (\<lambda>(ob, realm5).
                                           case ob of
                                             ObjectValue r \<Rightarrow>
                                               andThen (EnumerateObjectProperties realm5 r)
                                                 (\<lambda>it. Inr (KeyEnumerator it, realm5))
                                           | _ \<Rightarrow> Inl InvariantViolation)))
                              else
                                andThen (GetIterator realm4 exprValue)
                                  (\<lambda>(iter, realm5). Inr (ObjectIterator iter, realm5)))))))"

text \<open>
  Modelled from the spec: the for-in statement (\<^verbatim>\<open>evaluators/ForInStatement.js\<close>) is the
  for-of statement of the sources with the head evaluated in enumerate mode: the head
  evaluation gives the key result, and the body evaluation runs on it. A completion that
  the head evaluation throws leaves the statement. \<^verbatim>\<open>ForInOfBodyEvaluation\<close>, the only place
  where the statement of the loop is evaluated, binds and evaluates syntax: it is a
  parameter that gives a value and the realm after the loop, or fails.
\<close>

definition ForInStatement ::
  "(Realm \<Rightarrow> LexicalEnvironment option \<Rightarrow> error + ('r \<times> Realm))
    \<Rightarrow> (Realm \<Rightarrow> 'r \<Rightarrow> error + (val \<times> Realm)) \<Rightarrow> conversion \<Rightarrow> conversion
    \<Rightarrow> (Realm \<Rightarrow> Iterator \<Rightarrow> error + (val \<times> Realm))
    \<Rightarrow> Realm \<Rightarrow> LexicalEnvironment option \<Rightarrow> string list \<Rightarrow> error + (val \<times> Realm)" where
  "ForInStatement evaluate GetValue ToObject GetIterator ForInOfBodyEvaluation realm env TDZnames =
     andThen
       (ForInOfHeadEvaluation evaluate GetValue ToObject GetIterator realm env TDZnames Enumerate)
       (\<lambda>(keyResult, realm1). ForInOfBodyEvaluation realm1 keyResult)"

section \<open>Example objects\<close>

definition dataDescriptor :: "val \<Rightarrow> bool \<Rightarrow> bool \<Rightarrow> bool \<Rightarrow> Descriptor" where
  "dataDescriptor v w e c =
     \<lparr>desc_value = Some v, desc_writable = Some w, desc_get = None, desc_set = None,
      desc_enumerable = Some e, desc_configurable = Some c\<rparr>"

definition own_property :: "ref \<Rightarrow> string \<Rightarrow> Descriptor \<Rightarrow> PropertiesKey \<times> PropertyBinding" where
  "own_property ob k d =
     (KString k, \<lparr>descriptor = Some d, binding_object = ob, binding_key = KString k\<rparr>)"

definition ordinary_object ::
  "(PropertiesKey \<times> PropertyBinding) list \<Rightarrow> val \<Rightarrow> Obj" where
  "ordinary_object props proto =
     \<lparr>properties = props, symbols = [], Prototype = proto, Extensible = True,
      intrinsicName = None, partial_flag = False, simple_flag = False,
      kind = OrdinaryObject\<rparr>"

definition realm_of :: "(ref \<Rightarrow> Obj) \<Rightarrow> Realm" where
  "realm_of h =
     \<lparr>heap = h, modifiedProperties = Some [], generator = None, GlobalObject = 0,
      nextAbstract = 0,
      contextStack = [\<lparr>lexicalEnvironment = None, context_function = None\<rparr>],
      GlobalThisValue = ObjectValue 0\<rparr>"

text \<open>The descriptor that is stored for a key of an object.\<close>

definition stored_descriptor :: "Realm \<Rightarrow> ref \<Rightarrow> PropertyKeyValue \<Rightarrow> Descriptor option" where
  "stored_descriptor realm Ob P =
     (case get_binding realm Ob P of None \<Rightarrow> None | Some b \<Rightarrow> descriptor b)"

text \<open>
  An array of length 11 with a non-configurable element at index 9 and a configurable one
  at index 10.
\<close>

definition array_9_10 :: Obj where
  "array_9_10 =
     ordinary_object
       [own_property 1 ''length'' (dataDescriptor (NumberValue 11) True False False),
        own_property 1 ''9'' (dataDescriptor (StringValue ''a'') True True False),
        own_property 1 ''10'' (dataDescriptor (StringValue ''b'') True True True)]
       NullValue"

definition array_realm :: Realm where
  "array_realm = realm_of ((\<lambda>r. ordinary_object [] NullValue)(1 := array_9_10))"



definition possibly_deleted_current :: Descriptor where
  "possibly_deleted_current = dataDescriptor (AbstractValue 0 TopType True []) True True True"







text \<open>A \<^verbatim>\<open>$Call\<close> that returns the depth of the context stack it is entered with.\<close>

definition stack_depth_call :: call_hook where
  "stack_depth_call realm F V argsList = Inr (NumberValue (int (length (contextStack realm))), realm)"

text \<open>A result that is not a Throw completion.\<close>

definition no_throw :: "error + 'a \<Rightarrow> bool" where
  "no_throw m = (case m of Inl (Abrupt c) \<Rightarrow> False | _ \<Rightarrow> True)"

text \<open>The callee context once the this-value \<open>v\<close> is bound in its environment \<open>env\<close>.\<close>

definition bind_this :: "ExecutionContext \<Rightarrow> LexicalEnvironment \<Rightarrow> val \<Rightarrow> ExecutionContext" where
  "bind_this calleeContext env v =
     calleeContext\<lparr>lexicalEnvironment := Some (LexicalEnvironment
       ((environmentRecord env)\<lparr>ThisValue := Some v, ThisBindingStatus := initialized\<rparr>)
       (parent env))\<rparr>"

text \<open>Functions of each this-mode (7 is native), and a callee context whose this is unbound.\<close>

definition function_object :: "ThisMode \<Rightarrow> bool \<Rightarrow> Obj" where
  "function_object m native = (ordinary_object [] NullValue)\<lparr>kind := FunctionObject m native\<rparr>"

definition function_realm :: Realm where
  "function_realm =
     realm_of ((\<lambda>r. ordinary_object [] NullValue)
       (4 := function_object strict False, 5 := function_object global False,
        6 := function_object lexical False, 7 := function_object global True))"

definition function_environment :: LexicalEnvironment where
  "function_environment =
     LexicalEnvironment \<lparr>bindings = [], ThisBindingStatus = uninitialized, ThisValue = None\<rparr> None"

definition callee_context :: ExecutionContext where
  "callee_context = \<lparr>lexicalEnvironment = Some function_environment, context_function = None\<rparr>"

definition no_conversion :: conversion where
  "no_conversion realm v = Inr (v, realm)"

definition no_arguments :: "Realm \<Rightarrow> error + (val list \<times> Realm)" where
  "no_arguments realm = Inr ([], realm)"

definition evaluate_to :: "val \<Rightarrow> Realm \<Rightarrow> LexicalEnvironment option \<Rightarrow> error + (val \<times> Realm)" where
  "evaluate_to v realm env = Inr (v, realm)"

text \<open>A body evaluation that gives the number of keys of the enumerator it is run on.\<close>

definition count_keys :: "Realm \<Rightarrow> Iterator \<Rightarrow> error + (val \<times> Realm)" where
  "count_keys realm keyResult =
     (case keyResult of
        KeyEnumerator it \<Rightarrow> Inr (NumberValue (int (length (keys it))), realm)
      | ObjectIterator v \<Rightarrow> Inl InvariantViolation)"

text \<open>
  An object whose property \<open>x\<close> might have been deleted, with a prototype whose property
  \<open>x\<close> is not writable.
\<close>

definition uncertain_realm :: Realm where
  "uncertain_realm =
     realm_of ((\<lambda>r. ordinary_object [] NullValue)
       (2 := ordinary_object [own_property 2 ''x'' possibly_deleted_current] (ObjectValue 3),
        3 := ordinary_object
          [own_property 3 ''x'' (dataDescriptor (NumberValue 1) False True False)] NullValue))"

text \<open>
  An object with the keys \<open>a\<close> (not enumerable) and \<open>b\<close>, whose prototype has the keys
  \<open>a\<close>, \<open>b\<close> and \<open>c\<close>, all enumerable.
\<close>

definition chain_realm :: Realm where
  "chain_realm =
     realm_of ((\<lambda>r. ordinary_object [] NullValue)
       (2 := ordinary_object
          [own_property 2 ''a'' (dataDescriptor (NumberValue 1) True False True),
           own_property 2 ''b'' (dataDescriptor (NumberValue 2) True True True)]
          (ObjectValue 3),
        3 := ordinary_object
          [own_property 3 ''a'' (dataDescriptor (NumberValue 3) True True True),
           own_property 3 ''b'' (dataDescriptor (NumberValue 4) True True True),
           own_property 3 ''c'' (dataDescriptor (NumberValue 5) True True True)]
          NullValue))"

text \<open>The iterator that \<^verbatim>\<open>EnumerateObjectProperties\<close> makes for object 2 of that realm.\<close>

definition chain_iterator :: Enumerator where
  "chain_iterator =
     \<lparr>visited = {}, obj = 2, keys = [PStringValue ''a'', PStringValue ''b''], index = 0\<rparr>"

text \<open>Two realms whose objects have the same prototypes.\<close>

definition same_prototypes :: "Realm \<Rightarrow> Realm \<Rightarrow> bool" where
  "same_prototypes realm realm' = (\<forall>x. Prototype (heap realm' x) = Prototype (heap realm x))"

text \<open>The number of keys of the current object that the iterator has not passed.\<close>

definition remaining :: "Enumerator \<Rightarrow> nat" where
  "remaining it = length (keys it) - index it"

text \<open>1 when the iterator stands at a string key that it has not visited, and 0 otherwise.\<close>

definition at_new_key :: "Enumerator \<Rightarrow> nat" where
  "at_new_key it =
     (if index it < length (keys it) then
        (case keys it ! index it of
           PStringValue k \<Rightarrow> if k \<in> visited it then 0 else 1
         | _ \<Rightarrow> 0)
      else 0)"

section \<open>Basic facts\<close>

lemma andThen_Inr [simp]: "andThen (Inr x) f = f x"
  by (simp add: andThen_def)

lemma andThen_Inl [simp]: "andThen (Inl e) f = Inl e"
  by (simp add: andThen_def)

lemma mightHaveBeenDeleted_isAbstract: "mightHaveBeenDeleted v \<Longrightarrow> isAbstract v"
  by (cases v) simp_all

lemma heap_recordModifiedProperty [simp]: "heap (recordModifiedProperty realm b) = heap realm"
  by (simp add: recordModifiedProperty_def split: option.splits)

lemma heap_emit [simp]: "heap (emit realm e) = heap realm"
  by (simp add: emit_def split: option.splits)

lemma heap_InternalUpdatedProperty [simp]:
  "heap (InternalUpdatedProperty realm Ob P) = heap realm"
  by (simp add: InternalUpdatedProperty_def Let_def split: option.splits PropertiesKey.splits)

lemma get_binding_heap: "heap r1 = heap r2 \<Longrightarrow> get_binding r1 Ob P = get_binding r2 Ob P"
  by (simp add: get_binding_def)

lemma map_set_same:
  "map_of (InternalGetPropertiesMap (map_set ob P b) P) (InternalGetPropertiesKey P) = Some b"
  by (cases P) (simp_all add: update_conv')

lemma get_binding_store_binding [simp]:
  "get_binding (store_binding realm Ob P b) Ob P = Some b"
  by (simp add: get_binding_def store_binding_def map_set_same)

lemma stored_descriptor_InternalSetProperty:
  "stored_descriptor (InternalUpdatedProperty (InternalSetProperty realm Ob P d) Ob P') Ob P
     = Some d"
proof -
  have "get_binding (InternalUpdatedProperty (InternalSetProperty realm Ob P d) Ob P') Ob P
      = get_binding (InternalSetProperty realm Ob P d) Ob P"
    by (rule get_binding_heap) simp
  then show ?thesis
    by (simp add: stored_descriptor_def InternalSetProperty_def Let_def)
qed

section \<open>ValidateAndApplyPropertyDescriptor with no current descriptor\<close>

text \<open>
  Claim C2, as the code has it. With no current descriptor and an object \<open>ob\<close> with key \<open>p\<close>:
  when \<open>extensible\<close> is false the call returns false and the realm is as it was (no property
  is created); otherwise it returns true, and a generic or data \<open>Desc\<close> leaves a data
  property under \<open>p\<close> whose missing fields are value undefined and writable, enumerable and
  configurable false, while any other \<open>Desc\<close> (an accessor descriptor) leaves an accessor
  property whose missing get and set are undefined and whose missing enumerable and
  configurable are false. With no object (the call of \<^verbatim>\<open>IsCompatiblePropertyDescriptor\<close>) the
  call only validates: it returns \<open>extensible\<close> and the realm is as it was.
\<close>

theorem VAAPD_creates_property:
  "(\<not> extensible \<longrightarrow>
      ValidateAndApplyPropertyDescriptor realm (Some ob) (Some p) extensible Desc None
        = Inr (False, realm)) \<and>
   (extensible \<and> (IsGenericDescriptor (Some Desc) \<or> IsDataDescriptor (Some Desc)) \<longrightarrow>
      (\<exists>realm'.
         ValidateAndApplyPropertyDescriptor realm (Some ob) (Some p) extensible Desc None
           = Inr (True, realm') \<and>
         stored_descriptor realm' ob p =
           Some \<lparr>desc_value = Some (case desc_value Desc of None \<Rightarrow> UndefinedValue | Some v \<Rightarrow> v),
                 desc_writable = Some (case desc_writable Desc of None \<Rightarrow> False | Some b \<Rightarrow> b),
                 desc_get = None, desc_set = None,
                 desc_enumerable =
                   Some (case desc_enumerable Desc of None \<Rightarrow> False | Some b \<Rightarrow> b),
                 desc_configurable =
                   Some (case desc_configurable Desc of None \<Rightarrow> False | Some b \<Rightarrow> b)\<rparr>)) \<and>
   (extensible \<and> \<not> IsGenericDescriptor (Some Desc) \<and> \<not> IsDataDescriptor (Some Desc) \<longrightarrow>
      IsAccessorDescriptor (Some Desc) \<and>
      (\<exists>realm'.
         ValidateAndApplyPropertyDescriptor realm (Some ob) (Some p) extensible Desc None
           = Inr (True, realm') \<and>
         stored_descriptor realm' ob p =
           Some \<lparr>desc_value = None, desc_writable = None,
                 desc_get = Some (case desc_get Desc of None \<Rightarrow> UndefinedValue | Some v \<Rightarrow> v),
                 desc_set = Some (case desc_set Desc of None \<Rightarrow> UndefinedValue | Some v \<Rightarrow> v),
                 desc_enumerable =
                   Some (case desc_enumerable Desc of None \<Rightarrow> False | Some b \<Rightarrow> b),
                 desc_configurable =
                   Some (case desc_configurable Desc of None \<Rightarrow> False | Some b \<Rightarrow> b)\<rparr>)) \<and>
   ValidateAndApplyPropertyDescriptor realm None None extensible Desc None
     = Inr (extensible, realm)"
  by (auto simp: ValidateAndApplyPropertyDescriptor_def create_property_def
      stored_descriptor_InternalSetProperty or_undefined_def or_false_def
      IsGenericDescriptor_def)

text \<open>Defining \<open>x\<close> with the value 7 on an extensible object that has no \<open>x\<close>.\<close>

theorem VAAPD_creates_property_witness:
  "\<exists>realm'.
     ValidateAndApplyPropertyDescriptor array_realm (Some 2) (Some (PString ''x'')) True
       (empty_Descriptor\<lparr>desc_value := Some (NumberValue 7)\<rparr>) None = Inr (True, realm') \<and>
     stored_descriptor realm' 2 (PString ''x'')
       = Some (dataDescriptor (NumberValue 7) False False False)"
  using VAAPD_creates_property [where extensible = True
      and Desc = "empty_Descriptor\<lparr>desc_value := Some (NumberValue 7)\<rparr>"
      and realm = array_realm and ob = 2 and p = "PString ''x''"]
  by (simp add: IsDataDescriptor_def empty_Descriptor_def dataDescriptor_def)

text \<open>
  The claim as it is written speaks of every call. A call with no object and a data
  descriptor returns true and creates nothing: the realm is as it was.
\<close>

theorem VAAPD_without_object_counterexample:
  "IsDataDescriptor (Some (dataDescriptor (NumberValue 7) True True True)) \<and>
   ValidateAndApplyPropertyDescriptor array_realm None None True
     (dataDescriptor (NumberValue 7) True True True) None = Inr (True, array_realm)"
  by (simp add: ValidateAndApplyPropertyDescriptor_def create_property_def IsDataDescriptor_def
      dataDescriptor_def)

section \<open>ValidateAndApplyPropertyDescriptor with an identical descriptor\<close>







section \<open>GetOwnProperty of the string wrapper\<close>





section \<open>Failures are false, and the wrappers throw\<close>

lemma no_throw_simps [simp]:
  "no_throw (Inr x)" "no_throw (Inl IntrospectionError)" "no_throw (Inl InvariantViolation)"
  "\<not> no_throw (Inl (Abrupt c))"
  by (simp_all add: no_throw_def)

lemma no_throw_andThen:
  "no_throw m \<Longrightarrow> (\<And>x. m = Inr x \<Longrightarrow> no_throw (f x)) \<Longrightarrow> no_throw (andThen m f)"
  by (cases m) (auto simp: no_throw_def)

lemma no_throw_ThrowIfMightHaveBeenDeleted: "no_throw (ThrowIfMightHaveBeenDeleted v)"
  by (simp add: ThrowIfMightHaveBeenDeleted_def split: option.splits)

lemma no_throw_OrdinaryGetOwnProperty: "no_throw (OrdinaryGetOwnProperty realm Ob P)"
  by (simp add: OrdinaryGetOwnProperty_def Let_def split: option.splits val.splits prod.splits)

lemma no_throw_StringExotic_GetOwnProperty: "no_throw (StringExotic_GetOwnProperty realm Ob P)"
  unfolding StringExotic_GetOwnProperty_def
  by (rule no_throw_andThen [OF no_throw_OrdinaryGetOwnProperty])
    (auto intro!: no_throw_andThen no_throw_ThrowIfMightHaveBeenDeleted
      split: option.splits PropertiesKey.splits ObjectKind.splits number.splits)

lemma no_throw_GetOwnProperty: "no_throw (GetOwnProperty realm Ob P)"
  by (simp add: GetOwnProperty_def no_throw_OrdinaryGetOwnProperty
      no_throw_StringExotic_GetOwnProperty split: ObjectKind.splits)










lemma no_throw_Inl: "no_throw (Inl e) \<longleftrightarrow> (\<forall>c. e \<noteq> Abrupt c)"
  by (cases e) (simp_all add: no_throw_def)

lemma no_throw_parentPermitsChildPropertyCreation:
  "parentPermitsChildPropertyCreation n realm Ob P = Some r \<Longrightarrow> no_throw r"
proof (induction n arbitrary: realm Ob P r)
  case 0
  then show ?case by simp
next
  case (Suc n)
  have g: "no_throw (GetOwnProperty realm Ob P)"
    by (rule no_throw_GetOwnProperty)
  show ?case
  proof (cases "GetOwnProperty realm Ob P")
    case (Inl e)
    with Suc.prems g show ?thesis by (auto simp: no_throw_Inl)
  next
    case (Inr a)
    obtain ownDesc realm1 where a: "a = (ownDesc, realm1)" by (cases a)
    show ?thesis
    proof (cases "GetPrototypeOf realm1 Ob")
      case (ObjectValue pr)
      show ?thesis
      proof (cases "parentPermitsChildPropertyCreation n realm1 pr P")
        case None
        with Suc.prems Inr a ObjectValue show ?thesis
          by (auto simp: Let_def split: if_splits)
      next
        case (Some r')
        then have "no_throw r'" by (rule Suc.IH)
        with Suc.prems Inr a ObjectValue Some show ?thesis
          by (cases r') (auto simp: Let_def no_throw_Inl split: if_splits)
      qed
    qed (use Suc.prems Inr a in \<open>auto simp: Let_def split: if_splits\<close>)
  qed
qed




























section \<open>OrdinaryCallBindThis\<close>

text \<open>
  Claim C8. For a function of this-mode lexical the call returns undefined and the callee
  context is as it was. Otherwise, with an environment whose this is not yet bound: a
  strict or native function binds the this-argument as given; any other function binds
  the global this-value of the realm when the this-argument is null or undefined, and
  the result of \<^verbatim>\<open>ToObjectPartial\<close> on the this-argument otherwise.
\<close>

theorem OrdinaryCallBindThis_by_mode:
  assumes "kind (heap realm F) = FunctionObject thisMode native"
  shows
   "(thisMode = lexical \<longrightarrow>
       OrdinaryCallBindThis ToObjectPartial realm F calleeContext thisArgument
         = Inr (UndefinedValue, calleeContext, realm)) \<and>
    (lexicalEnvironment calleeContext = Some env
       \<and> ThisBindingStatus (environmentRecord env) = uninitialized \<longrightarrow>
       (thisMode \<noteq> lexical \<and> (thisMode = strict \<or> native) \<longrightarrow>
          OrdinaryCallBindThis ToObjectPartial realm F calleeContext thisArgument
            = Inr (thisArgument, bind_this calleeContext env thisArgument, realm)) \<and>
       (thisMode = global \<and> \<not> native
          \<and> HasSomeCompatibleType realm thisArgument [NullType, UndefinedType] \<longrightarrow>
          OrdinaryCallBindThis ToObjectPartial realm F calleeContext thisArgument
            = Inr (GlobalThisValue realm, bind_this calleeContext env (GlobalThisValue realm),
                   realm)) \<and>
       (thisMode = global \<and> \<not> native
          \<and> \<not> HasSomeCompatibleType realm thisArgument [NullType, UndefinedType]
          \<and> ToObjectPartial realm thisArgument = Inr (wrapper, realm1) \<longrightarrow>
          OrdinaryCallBindThis ToObjectPartial realm F calleeContext thisArgument
            = Inr (wrapper, bind_this calleeContext env wrapper, realm1)))"
  using assms
  by (auto simp: OrdinaryCallBindThis_def BindThisValue_def bind_this_def Let_def)

text \<open>The functions 6 (lexical), 4 (strict), 7 (native) and 5 (neither) of the example realm.\<close>

theorem OrdinaryCallBindThis_by_mode_witness:
  "OrdinaryCallBindThis no_conversion function_realm 6 callee_context (NumberValue 3)
     = Inr (UndefinedValue, callee_context, function_realm) \<and>
   OrdinaryCallBindThis no_conversion function_realm 4 callee_context NullValue
     = Inr (NullValue, bind_this callee_context function_environment NullValue, function_realm) \<and>
   OrdinaryCallBindThis no_conversion function_realm 7 callee_context NullValue
     = Inr (NullValue, bind_this callee_context function_environment NullValue, function_realm) \<and>
   OrdinaryCallBindThis no_conversion function_realm 5 callee_context NullValue
     = Inr (ObjectValue 0, bind_this callee_context function_environment (ObjectValue 0),
            function_realm) \<and>
   OrdinaryCallBindThis no_conversion function_realm 5 callee_context (ObjectValue 4)
     = Inr (ObjectValue 4, bind_this callee_context function_environment (ObjectValue 4),
            function_realm)"
proof -
  have k: "kind (heap function_realm 4) = FunctionObject strict False"
    "kind (heap function_realm 5) = FunctionObject global False"
    "kind (heap function_realm 6) = FunctionObject lexical False"
    "kind (heap function_realm 7) = FunctionObject global True"
    by (simp_all add: function_realm_def realm_of_def function_object_def ordinary_object_def)
  have e: "lexicalEnvironment callee_context = Some function_environment"
    "ThisBindingStatus (environmentRecord function_environment) = uninitialized"
    by (simp_all add: callee_context_def function_environment_def)
  have g: "GlobalThisValue function_realm = ObjectValue 0"
    by (simp add: function_realm_def realm_of_def)
  have h: "HasSomeCompatibleType function_realm NullValue [NullType, UndefinedType]"
    "\<not> HasSomeCompatibleType function_realm (ObjectValue 4) [NullType, UndefinedType]"
    by (simp_all add: HasSomeCompatibleType_def classOf_def isTypeCompatibleWith_def k)
  show ?thesis
    using OrdinaryCallBindThis_by_mode [OF k(3), where env = function_environment
        and calleeContext = callee_context and thisArgument = "NumberValue 3"
        and ToObjectPartial = no_conversion]
      OrdinaryCallBindThis_by_mode [OF k(1), where env = function_environment
        and calleeContext = callee_context and thisArgument = NullValue
        and ToObjectPartial = no_conversion]
      OrdinaryCallBindThis_by_mode [OF k(4), where env = function_environment
        and calleeContext = callee_context and thisArgument = NullValue
        and ToObjectPartial = no_conversion]
      OrdinaryCallBindThis_by_mode [OF k(2), where env = function_environment
        and calleeContext = callee_context and thisArgument = NullValue
        and ToObjectPartial = no_conversion]
      OrdinaryCallBindThis_by_mode [OF k(2), where env = function_environment
        and calleeContext = callee_context and thisArgument = "ObjectValue 4"
        and ToObjectPartial = no_conversion and wrapper = "ObjectValue 4"
        and ?realm1.0 = function_realm]
    by (simp add: e g h no_conversion_def)
qed

section \<open>ForInOfHeadEvaluation\<close>

text \<open>
  Claim C9, amended. In enumerate mode, when the expression evaluates to \<open>exprValue\<close>: a
  value that is null or undefined gives a Break completion with the empty value and no
  target, and the for-in statement ends with that completion whatever its body evaluation
  is: the loop is left and its body is not run; an abstract value that is not known to be
  null or undefined fails with IntrospectionError; every other value gives the enumerator
  that \<^verbatim>\<open>EnumerateObjectProperties\<close> makes for the result of \<^verbatim>\<open>ToObject\<close> on it. When the head
  evaluation gives a key result, the for-in statement is its body evaluation on that
  result.
\<close>

theorem ForInOfHeadEvaluation_enumerate:
  assumes "runningLexicalEnvironment realm = Inr oldEnv"
    and "enterTDZ realm env TDZnames = Inr (realm1, env1)"
    and "evaluate realm1 env1 = Inr (exprRef, realm2)"
    and "setLexicalEnvironment realm2 oldEnv = Inr realm3"
    and "GetValue realm3 exprRef = Inr (exprValue, realm4)"
  shows "ForInOfHeadEvaluation evaluate GetValue ToObject GetIterator realm env TDZnames Enumerate =
     (if HasSomeCompatibleType realm4 exprValue [NullType, UndefinedType]
      then Inl (Abrupt (BreakCompletion EmptyValue None))
      else if isAbstract exprValue then Inl IntrospectionError
      else
        andThen (ToObject realm4 exprValue)
          (\<lambda>(ob, realm5).
             case ob of
               ObjectValue r \<Rightarrow>
                 andThen (EnumerateObjectProperties realm5 r)
                   (\<lambda>it. Inr (KeyEnumerator it, realm5))
             | _ \<Rightarrow> Inl InvariantViolation)) \<and>
   (HasSomeCompatibleType realm4 exprValue [NullType, UndefinedType] \<longrightarrow>
      ForInStatement evaluate GetValue ToObject GetIterator ForInOfBodyEvaluation realm env
          TDZnames
        = Inl (Abrupt (BreakCompletion EmptyValue None))) \<and>
   (ForInOfHeadEvaluation evaluate GetValue ToObject GetIterator realm env TDZnames Enumerate
        = Inr (keyResult, realm6) \<longrightarrow>
      ForInStatement evaluate GetValue ToObject GetIterator ForInOfBodyEvaluation realm env
          TDZnames
        = ForInOfBodyEvaluation realm6 keyResult)"
proof (intro conjI impI)
  show head: "ForInOfHeadEvaluation evaluate GetValue ToObject GetIterator realm env TDZnames
      Enumerate =
     (if HasSomeCompatibleType realm4 exprValue [NullType, UndefinedType]
      then Inl (Abrupt (BreakCompletion EmptyValue None))
      else if isAbstract exprValue then Inl IntrospectionError
      else
        andThen (ToObject realm4 exprValue)
          (\<lambda>(ob, realm5).
             case ob of
               ObjectValue r \<Rightarrow>
                 andThen (EnumerateObjectProperties realm5 r)
                   (\<lambda>it. Inr (KeyEnumerator it, realm5))
             | _ \<Rightarrow> Inl InvariantViolation))"
    using assms
    by (simp add: ForInOfHeadEvaluation_def throwIfNotConcrete_def)
  assume "HasSomeCompatibleType realm4 exprValue [NullType, UndefinedType]"
  with head show "ForInStatement evaluate GetValue ToObject GetIterator ForInOfBodyEvaluation
      realm env TDZnames = Inl (Abrupt (BreakCompletion EmptyValue None))"
    by (simp add: ForInStatement_def)
next
  assume "ForInOfHeadEvaluation evaluate GetValue ToObject GetIterator realm env TDZnames
      Enumerate = Inr (keyResult, realm6)"
  then show "ForInStatement evaluate GetValue ToObject GetIterator ForInOfBodyEvaluation
      realm env TDZnames = ForInOfBodyEvaluation realm6 keyResult"
    by (simp add: ForInStatement_def)
qed

lemma array_realm_running:
  "runningLexicalEnvironment array_realm = Inr None"
  "enterTDZ array_realm None [] = Inr (array_realm, None)"
  "setLexicalEnvironment array_realm None = Inr array_realm"
  by (simp_all add: runningLexicalEnvironment_def enterTDZ_def setLexicalEnvironment_def
      array_realm_def realm_of_def)

text \<open>
  A for-in over null breaks, and the body evaluation is not run; over the empty object 2
  the head gives an enumerator, on which the body evaluation runs.
\<close>

theorem ForInOfHeadEvaluation_enumerate_witness:
  "ForInOfHeadEvaluation (evaluate_to NullValue) no_conversion no_conversion no_conversion
     array_realm None [] Enumerate = Inl (Abrupt (BreakCompletion EmptyValue None)) \<and>
   ForInStatement (evaluate_to NullValue) no_conversion no_conversion no_conversion count_keys
     array_realm None [] = Inl (Abrupt (BreakCompletion EmptyValue None)) \<and>
   ForInOfHeadEvaluation (evaluate_to (ObjectValue 2)) no_conversion no_conversion no_conversion
     array_realm None [] Enumerate
     = Inr (KeyEnumerator \<lparr>visited = {}, obj = 2, keys = [], index = 0\<rparr>, array_realm) \<and>
   ForInStatement (evaluate_to (ObjectValue 2)) no_conversion no_conversion no_conversion
     count_keys array_realm None [] = Inr (NumberValue 0, array_realm)"
proof -
  let ?it = "\<lparr>visited = {}, obj = 2, keys = [], index = 0\<rparr>"
  have h: "HasSomeCompatibleType array_realm NullValue [NullType, UndefinedType]"
    "\<not> HasSomeCompatibleType array_realm (ObjectValue 2) [NullType, UndefinedType]"
    by (simp_all add: HasSomeCompatibleType_def classOf_def isTypeCompatibleWith_def
        array_realm_def realm_of_def ordinary_object_def)
  have k: "EnumerateObjectProperties array_realm 2 = Inr ?it"
    by (simp add: EnumerateObjectProperties_def OwnPropertyKeys_def OrdinaryOwnPropertyKeys_def
        getOwnPropertyKeysArray_def symbol_keys_def array_realm_def realm_of_def
        ordinary_object_def List.map_filter_simps)
  have e: "evaluate_to NullValue array_realm None = Inr (NullValue, array_realm)"
    "evaluate_to (ObjectValue 2) array_realm None = Inr (ObjectValue 2, array_realm)"
    "no_conversion array_realm NullValue = Inr (NullValue, array_realm)"
    "no_conversion array_realm (ObjectValue 2) = Inr (ObjectValue 2, array_realm)"
    by (simp_all add: evaluate_to_def no_conversion_def)
  note N = ForInOfHeadEvaluation_enumerate [where evaluate = "evaluate_to NullValue"
      and GetValue = no_conversion and ToObject = no_conversion
      and GetIterator = no_conversion and ForInOfBodyEvaluation = count_keys,
      OF array_realm_running(1) array_realm_running(2) e(1) array_realm_running(3) e(3)]
  note E = ForInOfHeadEvaluation_enumerate [where evaluate = "evaluate_to (ObjectValue 2)"
      and GetValue = no_conversion and ToObject = no_conversion
      and GetIterator = no_conversion and ForInOfBodyEvaluation = count_keys
      and keyResult = "KeyEnumerator ?it" and ?realm6.0 = array_realm,
      OF array_realm_running(1) array_realm_running(2) e(2) array_realm_running(3) e(4)]
  from N h(1) have 1: "ForInOfHeadEvaluation (evaluate_to NullValue) no_conversion no_conversion
      no_conversion array_realm None [] Enumerate = Inl (Abrupt (BreakCompletion EmptyValue None))"
    by simp
  from N h(1) have 2: "ForInStatement (evaluate_to NullValue) no_conversion no_conversion
      no_conversion count_keys array_realm None []
      = Inl (Abrupt (BreakCompletion EmptyValue None))"
    by blast
  from E h(2) have 3: "ForInOfHeadEvaluation (evaluate_to (ObjectValue 2)) no_conversion
      no_conversion no_conversion array_realm None [] Enumerate
      = Inr (KeyEnumerator ?it, array_realm)"
    by (simp add: e k)
  with E have "ForInStatement (evaluate_to (ObjectValue 2)) no_conversion no_conversion
      no_conversion count_keys array_realm None [] = count_keys array_realm (KeyEnumerator ?it)"
    by blast
  then have 4: "ForInStatement (evaluate_to (ObjectValue 2)) no_conversion no_conversion
      no_conversion count_keys array_realm None [] = Inr (NumberValue 0, array_realm)"
    by (simp add: count_keys_def)
  from 1 2 3 4 show ?thesis by simp
qed

text \<open>
  The claim as it is written fails at an abstract value of string type: it is neither null
  nor undefined, and no enumerator is returned.
\<close>

theorem ForInOfHeadEvaluation_abstract_counterexample:
  "\<not> HasSomeCompatibleType array_realm (AbstractValue 0 StringType False [])
       [NullType, UndefinedType] \<and>
   ForInOfHeadEvaluation (evaluate_to (AbstractValue 0 StringType False [])) no_conversion
     no_conversion no_conversion array_realm None [] Enumerate = Inl IntrospectionError"
  by (simp add: ForInOfHeadEvaluation_def array_realm_running evaluate_to_def no_conversion_def
      HasSomeCompatibleType_def classOf_def isTypeCompatibleWith_def throwIfNotConcrete_def)

section \<open>Tail calls\<close>

text \<open>
  Claim C10. \<^verbatim>\<open>IsInTailPosition\<close> is false for every node. A direct call whose tail-position
  flag comes from it is the call with no flag: once the arguments are evaluated and the
  function is found callable, the call is issued in the realm as the evaluation of the
  arguments left it, whereas with the flag true the running context is popped first.
\<close>

theorem tail_call_path_never_taken:
  "IsInTailPosition realm node = False \<and>
   EvaluateDirectCall call ArgumentListEvaluation realm func thisValue
       (Some (IsInTailPosition realm node))
     = EvaluateDirectCall call ArgumentListEvaluation realm func thisValue None \<and>
   (ArgumentListEvaluation realm = Inr (argList, realm1) \<and> func = ObjectValue r
      \<and> IsCallable realm1 func = Inr True \<longrightarrow>
      EvaluateDirectCall call ArgumentListEvaluation realm func thisValue
          (Some (IsInTailPosition realm node))
        = Call call realm1 func thisValue argList \<and>
      EvaluateDirectCall call ArgumentListEvaluation realm func thisValue (Some True)
        = andThen (PrepareForTailCall realm1)
            (\<lambda>realm2. Call call realm2 func thisValue argList))"
  by (cases "ArgumentListEvaluation realm")
    (auto simp: IsInTailPosition_def EvaluateDirectCall_def throwIfNotConcrete_def)

text \<open>The callee sees a context stack of depth 1; on the tail-call path it would see depth 0.\<close>

theorem tail_call_path_never_taken_witness:
  "EvaluateDirectCall stack_depth_call no_arguments function_realm (ObjectValue 4) UndefinedValue
       (Some (IsInTailPosition function_realm ()))
     = Inr (NumberValue 1, function_realm) \<and>
   EvaluateDirectCall stack_depth_call no_arguments function_realm (ObjectValue 4) UndefinedValue
       (Some True)
     = Inr (NumberValue 0, function_realm\<lparr>contextStack := []\<rparr>)"
proof -
  have k: "kind (heap function_realm 4) = FunctionObject strict False"
    by (simp add: function_realm_def realm_of_def function_object_def ordinary_object_def)
  have c: "IsCallable function_realm (ObjectValue 4) = Inr True"
    by (simp add: IsCallable_def HasCompatibleType_def classOf_def isTypeCompatibleWith_def k)
  have s: "contextStack function_realm = [\<lparr>lexicalEnvironment = None, context_function = None\<rparr>]"
    by (simp add: function_realm_def realm_of_def)
  have p: "no_arguments function_realm = Inr ([], function_realm) \<and> ObjectValue 4 = ObjectValue 4
      \<and> IsCallable function_realm (ObjectValue 4) = Inr True"
    by (simp add: no_arguments_def c)
  have t: "EvaluateDirectCall stack_depth_call no_arguments function_realm (ObjectValue 4)
        UndefinedValue (Some (IsInTailPosition function_realm ()))
      = Call stack_depth_call function_realm (ObjectValue 4) UndefinedValue [] \<and>
    EvaluateDirectCall stack_depth_call no_arguments function_realm (ObjectValue 4)
        UndefinedValue (Some True)
      = andThen (PrepareForTailCall function_realm)
          (\<lambda>realm2. Call stack_depth_call realm2 (ObjectValue 4) UndefinedValue [])"
    using tail_call_path_never_taken [where ArgumentListEvaluation = no_arguments
        and realm = function_realm and argList = "[]" and ?realm1.0 = function_realm
        and func = "ObjectValue 4" and r = 4 and call = stack_depth_call
        and thisValue = UndefinedValue and node = "()"] p
    by blast
  show ?thesis
    by (simp add: t [THEN conjunct1] t [THEN conjunct2] c Call_def hasCall_def k stack_depth_call_def s
        PrepareForTailCall_def IsCallable_def HasCompatibleType_def classOf_def
        isTypeCompatibleWith_def)
qed

section \<open>ArraySetLength\<close>

text \<open>
  Claim C1 asks for the deletions in descending numeric order. The code sorts the indices
  with the default order of \<^verbatim>\<open>sort\<close>, which compares their string forms, and reverses: for
  the indices 9 and 10 the order of deletion is 9 before 10. On the array of length 11
  whose element 9 is not configurable, shrinking the length to 0 stops at the refused
  delete of 9 with length 10 and returns false, and the element at index 10 is still there.
\<close>

theorem ArraySetLength_deletes_out_of_order:
  "keys_to_delete array_realm 1 0 11 = [9, 10] \<and>
   (case ArraySetLength ToUint32_number ToNumber_number array_realm 1
           (empty_Descriptor\<lparr>desc_value := Some (NumberValue 0)\<rparr>) of
      Inl e \<Rightarrow> False
    | Inr (result, realm') \<Rightarrow>
        result = False \<and>
        stored_descriptor realm' 1 (PString ''length'')
          = Some (dataDescriptor (NumberValue 10) True False False) \<and>
        stored_descriptor realm' 1 (PString ''10'')
          = Some (dataDescriptor (StringValue ''b'') True True True))"
  by code_simp

section \<open>OrdinarySet and the prototype chain\<close>

text \<open>
  Claim C4. With an own descriptor whose value is not flagged as possibly deleted,
  \<^verbatim>\<open>OrdinarySet\<close> is steps 4 to 9 on that descriptor for every bound on the objects visited
  (it visits no parent); with no own descriptor and a parent object it is the \<^verbatim>\<open>[[Set]]\<close> of
  the parent. With an own descriptor whose value might have been deleted and a parent
  object: when the parent does not permit the creation of the property the call fails with
  IntrospectionError, when the question to the parent fails the call fails the same way
  (with IntrospectionError, or a broken invariant), and only when the parent permits it
  does the call go on with steps 4 to 9. An abstract parent is an IntrospectionError.
\<close>

theorem OrdinarySet_prototype_chain:
  "(GetOwnProperty realm Ob P = Inr (Some od, realm1)
      \<and> \<not> mightHaveBeenDeleted (or_undefined (desc_value od)) \<longrightarrow>
      OrdinarySet call (Suc n) realm Ob P V Receiver
        = Some (OrdinarySet_steps call realm1 P V Receiver od (or_undefined (desc_value od)))) \<and>
   (GetOwnProperty realm Ob P = Inr (None, realm1)
      \<and> GetPrototypeOf realm1 Ob = ObjectValue proto \<longrightarrow>
      OrdinarySet call (Suc n) realm Ob P V Receiver
        = OrdinarySet call n realm1 proto P V Receiver) \<and>
   (GetOwnProperty realm Ob P = Inr (Some od, realm1)
      \<and> mightHaveBeenDeleted (or_undefined (desc_value od))
      \<and> GetPrototypeOf realm1 Ob = ObjectValue proto \<longrightarrow>
      (parentPermitsChildPropertyCreation n realm1 proto P = Some (Inr (False, realm2)) \<longrightarrow>
         OrdinarySet call (Suc n) realm Ob P V Receiver = Some (Inl IntrospectionError)) \<and>
      (parentPermitsChildPropertyCreation n realm1 proto P = Some (Inl e) \<longrightarrow>
         OrdinarySet call (Suc n) realm Ob P V Receiver = Some (Inl e)
         \<and> (e = IntrospectionError \<or> e = InvariantViolation)) \<and>
      (parentPermitsChildPropertyCreation n realm1 proto P = Some (Inr (True, realm2)) \<longrightarrow>
         OrdinarySet call (Suc n) realm Ob P V Receiver
           = Some (OrdinarySet_steps call realm2 P V Receiver od
                     (or_undefined (desc_value od))))) \<and>
   (GetOwnProperty realm Ob P = Inr (ownDesc, realm1)
      \<and> (ownDesc = None \<or> mightHaveBeenDeleted (descValue ownDesc))
      \<and> isAbstract (GetPrototypeOf realm1 Ob) \<longrightarrow>
      OrdinarySet call (Suc n) realm Ob P V Receiver = Some (Inl IntrospectionError))"
proof (intro conjI impI)
  assume "GetOwnProperty realm Ob P = Inr (Some od, realm1)
      \<and> \<not> mightHaveBeenDeleted (or_undefined (desc_value od))"
  then show "OrdinarySet call (Suc n) realm Ob P V Receiver
        = Some (OrdinarySet_steps call realm1 P V Receiver od (or_undefined (desc_value od)))"
    by (simp add: descValue_def)
next
  assume "GetOwnProperty realm Ob P = Inr (None, realm1)
      \<and> GetPrototypeOf realm1 Ob = ObjectValue proto"
  then show "OrdinarySet call (Suc n) realm Ob P V Receiver
        = OrdinarySet call n realm1 proto P V Receiver"
    by (simp add: descValue_def)
next
  assume a: "GetOwnProperty realm Ob P = Inr (Some od, realm1)
      \<and> mightHaveBeenDeleted (or_undefined (desc_value od))
      \<and> GetPrototypeOf realm1 Ob = ObjectValue proto"
  then have abs: "isAbstract (or_undefined (desc_value od))"
    by (simp add: mightHaveBeenDeleted_isAbstract)
  {
    assume "parentPermitsChildPropertyCreation n realm1 proto P = Some (Inr (False, realm2))"
    with a abs show "OrdinarySet call (Suc n) realm Ob P V Receiver = Some (Inl IntrospectionError)"
      by (simp add: descValue_def throwIntrospectionError_def)
  }
  {
    assume p: "parentPermitsChildPropertyCreation n realm1 proto P = Some (Inl e)"
    with a show "OrdinarySet call (Suc n) realm Ob P V Receiver = Some (Inl e)"
      by (simp add: descValue_def)
    from p have "no_throw (Inl e :: error + bool \<times> Realm)"
      by (rule no_throw_parentPermitsChildPropertyCreation)
    then show "e = IntrospectionError \<or> e = InvariantViolation"
      by (cases e) (simp_all add: no_throw_Inl)
  }
  {
    assume "parentPermitsChildPropertyCreation n realm1 proto P = Some (Inr (True, realm2))"
    with a show "OrdinarySet call (Suc n) realm Ob P V Receiver
           = Some (OrdinarySet_steps call realm2 P V Receiver od
                     (or_undefined (desc_value od)))"
      by (simp add: descValue_def)
  }
next
  assume "GetOwnProperty realm Ob P = Inr (ownDesc, realm1)
      \<and> (ownDesc = None \<or> mightHaveBeenDeleted (descValue ownDesc))
      \<and> isAbstract (GetPrototypeOf realm1 Ob)"
  then show "OrdinarySet call (Suc n) realm Ob P V Receiver = Some (Inl IntrospectionError)"
    by auto
qed

text \<open>
  Object 2 has a possibly deleted \<open>x\<close> and the parent 3, whose \<open>x\<close> is not writable: the set
  on 2 fails with IntrospectionError. The set on 3 returns false without a visit to a parent.
\<close>

theorem OrdinarySet_prototype_chain_witness:
  "OrdinarySet stack_depth_call (Suc (Suc 0)) uncertain_realm 2 (PString ''x'') (NumberValue 1)
     (ObjectValue 2) = Some (Inl IntrospectionError) \<and>
   OrdinarySet stack_depth_call (Suc 0) uncertain_realm 3 (PString ''x'') (NumberValue 1)
     (ObjectValue 3) = Some (Inr (False, uncertain_realm))"
proof -
  let ?d = "dataDescriptor (NumberValue 1) False True False"
  have h: "heap uncertain_realm 2
      = ordinary_object [own_property 2 ''x'' possibly_deleted_current] (ObjectValue 3)"
    "heap uncertain_realm 3 = ordinary_object [own_property 3 ''x'' ?d] NullValue"
    by (simp_all add: uncertain_realm_def realm_of_def)
  have g2: "GetOwnProperty uncertain_realm 2 (PString ''x'')
      = Inr (Some possibly_deleted_current, uncertain_realm)"
    by (simp add: GetOwnProperty_def OrdinaryGetOwnProperty_def get_binding_def h
        ordinary_object_def own_property_def possibly_deleted_current_def dataDescriptor_def
        IsDataDescriptor_def)
  have g3: "GetOwnProperty uncertain_realm 3 (PString ''x'') = Inr (Some ?d, uncertain_realm)"
    by (simp add: GetOwnProperty_def OrdinaryGetOwnProperty_def get_binding_def h
        ordinary_object_def own_property_def dataDescriptor_def IsDataDescriptor_def)
  have p: "GetPrototypeOf uncertain_realm 2 = ObjectValue 3"
    by (simp add: GetPrototypeOf_def h ordinary_object_def)
  have pp: "parentPermitsChildPropertyCreation (Suc 0) uncertain_realm 3 (PString ''x'')
      = Some (Inr (False, uncertain_realm))"
    by (simp add: g3 descValue_def or_undefined_def dataDescriptor_def IsDataDescriptor_def)
  have m: "mightHaveBeenDeleted (or_undefined (desc_value possibly_deleted_current))"
    "\<not> mightHaveBeenDeleted (or_undefined (desc_value ?d))"
    by (simp_all add: possibly_deleted_current_def dataDescriptor_def or_undefined_def)
  note T2 = OrdinarySet_prototype_chain [where realm = uncertain_realm and Ob = 2
      and P = "PString ''x''" and od = possibly_deleted_current
      and ?realm1.0 = uncertain_realm and proto = 3 and n = "Suc 0"
      and ?realm2.0 = uncertain_realm and call = stack_depth_call and V = "NumberValue 1"
      and Receiver = "ObjectValue 2"]
  note T3 = OrdinarySet_prototype_chain [where realm = uncertain_realm and Ob = 3
      and P = "PString ''x''" and od = ?d and ?realm1.0 = uncertain_realm and n = 0
      and call = stack_depth_call and V = "NumberValue 1" and Receiver = "ObjectValue 3"]
  from T2 g2 p pp m have 1: "OrdinarySet stack_depth_call (Suc (Suc 0)) uncertain_realm 2
      (PString ''x'') (NumberValue 1) (ObjectValue 2) = Some (Inl IntrospectionError)"
    by blast
  from T3 g3 m have "OrdinarySet stack_depth_call (Suc 0) uncertain_realm 3 (PString ''x'')
      (NumberValue 1) (ObjectValue 3)
      = Some (OrdinarySet_steps stack_depth_call uncertain_realm (PString ''x'') (NumberValue 1)
          (ObjectValue 3) ?d (or_undefined (desc_value ?d)))"
    by blast
  then have 2: "OrdinarySet stack_depth_call (Suc 0) uncertain_realm 3 (PString ''x'')
      (NumberValue 1) (ObjectValue 3) = Some (Inr (False, uncertain_realm))"
    by (simp add: OrdinarySet_steps_def dataDescriptor_def IsDataDescriptor_def or_undefined_def)
  from 1 2 show ?thesis by simp
qed

section \<open>EnumerateObjectProperties\<close>

lemma same_prototypes_refl [simp]: "same_prototypes realm realm"
  by (simp add: same_prototypes_def)

lemma same_prototypes_trans:
  "same_prototypes r1 r2 \<Longrightarrow> same_prototypes r2 r3 \<Longrightarrow> same_prototypes r1 r3"
  by (simp add: same_prototypes_def)

lemma reaches_null_same_prototypes:
  "same_prototypes realm realm' \<Longrightarrow> reaches_null d realm' ob = reaches_null d realm ob"
  by (induction d arbitrary: ob) (simp_all add: same_prototypes_def split: val.splits)

lemma reaches_null_parent:
  "reaches_null d realm ob \<Longrightarrow> Prototype (heap realm ob) = ObjectValue p \<Longrightarrow>
   \<exists>d'. d = Suc d' \<and> reaches_null d' realm p"
  by (cases d) simp_all

lemma Prototype_map_set [simp]: "Prototype (map_set ob P b) = Prototype ob"
  by (cases P) simp_all

lemma same_prototypes_heap:
  "(\<And>x. Prototype (heap realm' x) = Prototype (heap realm x)) \<Longrightarrow> same_prototypes realm realm'"
  by (simp add: same_prototypes_def)

lemma same_prototypes_InternalSetProperty:
  "same_prototypes realm (InternalSetProperty realm Ob P d)"
  by (simp add: same_prototypes_def InternalSetProperty_def Let_def store_binding_def)

lemma heap_derive [simp]: "heap (snd (derive realm t d k)) = heap realm"
  by (simp add: derive_def)

lemma same_prototypes_OrdinaryGetOwnProperty:
  "OrdinaryGetOwnProperty realm Ob P = Inr (desc, realm1) \<Longrightarrow> same_prototypes realm realm1"
  by (auto simp: OrdinaryGetOwnProperty_def Let_def same_prototypes_def InternalSetProperty_def
      store_binding_def derive_def
      split: option.splits val.splits if_splits prod.splits)

lemma andThen_eq_Inr:
  "andThen m f = Inr y \<longleftrightarrow> (\<exists>x. m = Inr x \<and> f x = Inr y)"
  by (cases m) simp_all

lemma same_prototypes_StringExotic_GetOwnProperty:
  "StringExotic_GetOwnProperty realm Ob P = Inr (desc, realm1) \<Longrightarrow> same_prototypes realm realm1"
  by (auto simp: StringExotic_GetOwnProperty_def andThen_eq_Inr
      dest!: same_prototypes_OrdinaryGetOwnProperty
      split: option.splits PropertiesKey.splits if_splits ObjectKind.splits number.splits)

lemma same_prototypes_GetOwnProperty:
  "GetOwnProperty realm Ob P = Inr (desc, realm1) \<Longrightarrow> same_prototypes realm realm1"
  by (auto simp: GetOwnProperty_def dest: same_prototypes_OrdinaryGetOwnProperty
      same_prototypes_StringExotic_GetOwnProperty split: ObjectKind.splits)

lemma next_object_Some:
  "next_object realm it = Inr (Some it1) \<Longrightarrow>
   visited it1 = visited it \<and>
   (it1 = it \<and> index it < length (keys it)
    \<or> length (keys it) \<le> index it \<and> Prototype (heap realm (obj it)) = ObjectValue (obj it1)
       \<and> index it1 = 0)"
  by (auto simp: next_object_def GetPrototypeOf_def andThen_eq_Inr split: if_splits val.splits)

lemma next_object_None:
  "next_object realm it = Inr None \<Longrightarrow>
   length (keys it) \<le> index it \<and> Prototype (heap realm (obj it)) = NullValue"
  by (auto simp: next_object_def GetPrototypeOf_def andThen_eq_Inr split: if_splits val.splits)

lemma next_turn_Return:
  assumes "next_turn realm it = Inr (Return result it' realm')"
  shows "same_prototypes realm realm' \<and>
     (case result of
        None \<Rightarrow> it' = it \<and> realm' = realm \<and> length (keys it) \<le> index it
                 \<and> Prototype (heap realm (obj it)) = NullValue
      | Some v \<Rightarrow>
          (\<exists>k. v = StringValue k \<and> k \<notin> visited it \<and> visited it' = insert k (visited it)
             \<and> at_new_key it' = 0
             \<and> (obj it' = obj it \<and> remaining it' = remaining it \<and> at_new_key it = 1
                \<or> Prototype (heap realm (obj it)) = ObjectValue (obj it'))))"
proof (cases "next_object realm it")
  case (Inl e)
  with assms show ?thesis by (simp add: next_turn_def)
next
  case (Inr a)
  show ?thesis
  proof (cases a)
    case None
    with assms Inr next_object_None [of realm it] show ?thesis
      by (auto simp: next_turn_def)
  next
    case (Some it1)
    note o = next_object_Some [OF Inr [unfolded Some]]
    from assms Inr Some obtain key desc where
      k: "index it1 < length (keys it1)" "keys it1 ! index it1 = PStringValue key"
      and g: "GetOwnProperty realm (obj it1) (PStringValue key) = Inr (desc, realm')"
      and r: "key \<notin> visited it1" "result = Some (StringValue key)"
        "it' = it1\<lparr>visited := insert key (visited it1)\<rparr>"
      by (auto simp: next_turn_def split: if_splits PropertyKeyValue.splits sum.splits
          option.splits)
    have "same_prototypes realm realm'"
      using g by (rule same_prototypes_GetOwnProperty)
    moreover have "at_new_key it' = 0"
      using k r by (simp add: at_new_key_def)
    moreover have "obj it' = obj it \<and> remaining it' = remaining it \<and> at_new_key it = 1
        \<or> Prototype (heap realm (obj it)) = ObjectValue (obj it')"
      using o k r by (auto simp: remaining_def at_new_key_def)
    ultimately show ?thesis
      using o r by simp
  qed
qed

lemma next_turn_Continue:
  assumes "next_turn realm it = Inr (Continue it' realm')"
  shows "same_prototypes realm realm' \<and> visited it \<subseteq> visited it' \<and>
     (obj it' = obj it \<and> Suc (remaining it') = remaining it
      \<or> Prototype (heap realm (obj it)) = ObjectValue (obj it'))"
proof (cases "next_object realm it")
  case (Inl e)
  with assms show ?thesis by (simp add: next_turn_def)
next
  case (Inr a)
  show ?thesis
  proof (cases a)
    case None
    with assms Inr show ?thesis by (simp add: next_turn_def)
  next
    case (Some it1)
    note o = next_object_Some [OF Inr [unfolded Some]]
    from assms Inr Some have
      c: "same_prototypes realm realm' \<and> visited it1 \<subseteq> visited it' \<and> obj it' = obj it1
          \<and> keys it' = keys it1 \<and> index it' = Suc (index it1)"
      by (auto simp: next_turn_def dest: same_prototypes_GetOwnProperty
          split: if_splits PropertyKeyValue.splits sum.splits option.splits)
    with o show ?thesis
      by (auto simp: remaining_def)
  qed
qed


lemma reaches_null_step:
  assumes "same_prototypes realm realm1"
    and "obj1 = ob \<or> Prototype (heap realm ob) = ObjectValue obj1"
    and "reaches_null d realm1 obj1"
  shows "\<exists>d'. reaches_null d' realm ob"
proof -
  have r: "reaches_null d realm obj1"
    using assms(1, 3) by (simp add: reaches_null_same_prototypes)
  from assms(2) show ?thesis
  proof
    assume "obj1 = ob"
    with r show ?thesis by auto
  next
    assume "Prototype (heap realm ob) = ObjectValue obj1"
    with r have "reaches_null (Suc d) realm ob" by simp
    then show ?thesis ..
  qed
qed

lemma iterator_next_result:
  "iterator_next n realm it = Some (Inr (result, it', realm')) \<Longrightarrow>
   same_prototypes realm realm' \<and> visited it \<subseteq> visited it' \<and>
   (case result of
      None \<Rightarrow> length (keys it') \<le> index it' \<and> Prototype (heap realm' (obj it')) = NullValue
    | Some v \<Rightarrow> (\<exists>k. v = StringValue k \<and> k \<notin> visited it \<and> k \<in> visited it')) \<and>
   (\<forall>d. reaches_null d realm' (obj it') \<longrightarrow> (\<exists>d'. reaches_null d' realm (obj it)))"
proof (induction n arbitrary: realm it)
  case 0
  then show ?case by simp
next
  case (Suc n)
  show ?case
  proof (cases "next_turn realm it")
    case (Inl e)
    with Suc.prems show ?thesis by simp
  next
    case (Inr t)
    show ?thesis
    proof (cases t)
      case (Return res it1 realm1)
      with Suc.prems Inr have eq: "res = result" "it1 = it'" "realm1 = realm'"
        by simp_all
      note R = next_turn_Return [OF Inr [unfolded Return eq]]
      show ?thesis
      proof (cases result)
        case None
        with R show ?thesis by auto
      next
        case (Some v)
        with R obtain k where k: "v = StringValue k" "k \<notin> visited it"
          "visited it' = insert k (visited it)"
          and o: "obj it' = obj it \<or> Prototype (heap realm (obj it)) = ObjectValue (obj it')"
          and sp: "same_prototypes realm realm'"
          by auto
        have "\<forall>d. reaches_null d realm' (obj it') \<longrightarrow> (\<exists>d'. reaches_null d' realm (obj it))"
          using reaches_null_step [OF sp o] by blast
        with Some k sp show ?thesis by auto
      qed
    next
      case (Continue it1 realm1)
      with Suc.prems Inr have n: "iterator_next n realm1 it1 = Some (Inr (result, it', realm'))"
        by simp
      note C = next_turn_Continue [OF Inr [unfolded Continue]]
      note IH = Suc.IH [OF n]
      have sp: "same_prototypes realm realm'"
        using C IH by (blast intro: same_prototypes_trans)
      have vis: "visited it \<subseteq> visited it'"
        using C IH by blast
      have res: "case result of
          None \<Rightarrow> length (keys it') \<le> index it' \<and> Prototype (heap realm' (obj it')) = NullValue
        | Some v \<Rightarrow> (\<exists>k. v = StringValue k \<and> k \<notin> visited it \<and> k \<in> visited it')"
        using C IH by (cases result) auto
      have chain: "\<forall>d. reaches_null d realm' (obj it') \<longrightarrow> (\<exists>d'. reaches_null d' realm (obj it))"
      proof (intro allI impI)
        fix d assume "reaches_null d realm' (obj it')"
        with IH obtain d1 where "reaches_null d1 realm1 (obj it1)" by blast
        moreover from C have "same_prototypes realm realm1"
          and "obj it1 = obj it \<or> Prototype (heap realm (obj it)) = ObjectValue (obj it1)"
          by auto
        ultimately show "\<exists>d'. reaches_null d' realm (obj it)"
          by (blast intro: reaches_null_step)
      qed
      from sp vis res chain show ?thesis by simp
    qed
  qed
qed

lemma iterator_next_mono:
  "iterator_next n realm it = Some r \<Longrightarrow> iterator_next (n + k) realm it = Some r"
proof (induction n arbitrary: realm it)
  case 0
  then show ?case by simp
next
  case (Suc n)
  then show ?case
    by (auto split: sum.splits turn.splits)
qed

lemma iterator_next_terminates:
  "reaches_null d realm (obj it) \<Longrightarrow> \<exists>n r. iterator_next n realm it = Some r"
proof (induction d arbitrary: realm it rule: less_induct)
  case (less d)
  note outer = less.IH
  from less.prems show ?case
  proof (induction "remaining it" arbitrary: realm it rule: less_induct)
    case less
    note inner = less.hyps
    show ?case
    proof (cases "next_turn realm it")
      case (Inl e)
      then have "iterator_next (Suc 0) realm it = Some (Inl e)" by simp
      then show ?thesis by blast
    next
      case (Inr t)
      show ?thesis
      proof (cases t)
        case (Return res it1 realm1)
        with Inr have "iterator_next (Suc 0) realm it = Some (Inr (res, it1, realm1))" by simp
        then show ?thesis by blast
      next
        case (Continue it1 realm1)
        note C = next_turn_Continue [OF Inr [unfolded Continue]]
        then have sp: "same_prototypes realm realm1" by simp
        have "\<exists>n r. iterator_next n realm1 it1 = Some r"
        proof (cases "obj it1 = obj it \<and> Suc (remaining it1) = remaining it")
          case True
          then have "remaining it1 < remaining it" by simp
          moreover have "reaches_null d realm1 (obj it1)"
            using True less.prems sp by (simp add: reaches_null_same_prototypes)
          ultimately show ?thesis by (rule inner)
        next
          case False
          with C have "Prototype (heap realm (obj it)) = ObjectValue (obj it1)" by auto
          with less.prems obtain d' where "d = Suc d'" "reaches_null d' realm (obj it1)"
            by (blast dest: reaches_null_parent)
          then have "d' < d" "reaches_null d' realm1 (obj it1)"
            using sp by (simp_all add: reaches_null_same_prototypes)
          then show ?thesis by (rule outer)
        qed
        then obtain n r where "iterator_next n realm1 it1 = Some r" by blast
        with Inr Continue have "iterator_next (Suc n) realm it = Some r" by simp
        then show ?thesis by blast
      qed
    qed
  qed
qed

lemma iterator_next_yield_decreases:
  "iterator_next n realm it = Some (Inr (Some v, it', realm')) \<Longrightarrow>
   reaches_null d realm (obj it) \<Longrightarrow>
   \<exists>d'. reaches_null d' realm' (obj it') \<and>
     (d' < d \<or> d' = d \<and> (remaining it' < remaining it
        \<or> remaining it' = remaining it \<and> at_new_key it' < at_new_key it))"
proof (induction n arbitrary: realm it d)
  case 0
  then show ?case by simp
next
  case (Suc n)
  show ?case
  proof (cases "next_turn realm it")
    case (Inl e)
    with Suc.prems show ?thesis by simp
  next
    case (Inr t)
    show ?thesis
    proof (cases t)
      case (Return res it1 realm1)
      with Suc.prems Inr have eq: "res = Some v" "it1 = it'" "realm1 = realm'"
        by simp_all
      from next_turn_Return [OF Inr [unfolded Return eq]]
      have sp: "same_prototypes realm realm'" and a: "at_new_key it' = 0"
        and o: "obj it' = obj it \<and> remaining it' = remaining it \<and> at_new_key it = 1
          \<or> Prototype (heap realm (obj it)) = ObjectValue (obj it')"
        by auto
      from o show ?thesis
      proof
        assume s: "obj it' = obj it \<and> remaining it' = remaining it \<and> at_new_key it = 1"
        then have "reaches_null d realm' (obj it')"
          using Suc.prems(2) sp by (simp add: reaches_null_same_prototypes)
        with s a show ?thesis by auto
      next
        assume "Prototype (heap realm (obj it)) = ObjectValue (obj it')"
        with Suc.prems(2) obtain d' where "d = Suc d'" "reaches_null d' realm (obj it')"
          by (blast dest: reaches_null_parent)
        then have "d' < d" "reaches_null d' realm' (obj it')"
          using sp by (simp_all add: reaches_null_same_prototypes)
        then show ?thesis by blast
      qed
    next
      case (Continue it1 realm1)
      with Suc.prems Inr have n: "iterator_next n realm1 it1 = Some (Inr (Some v, it', realm'))"
        by simp
      note C = next_turn_Continue [OF Inr [unfolded Continue]]
      then have sp: "same_prototypes realm realm1" by simp
      have "\<exists>d1. reaches_null d1 realm1 (obj it1)
          \<and> (d1 < d \<or> d1 = d \<and> remaining it1 < remaining it)"
      proof (cases "obj it1 = obj it \<and> Suc (remaining it1) = remaining it")
        case True
        then have "reaches_null d realm1 (obj it1)" "remaining it1 < remaining it"
          using Suc.prems(2) sp by (simp_all add: reaches_null_same_prototypes)
        then show ?thesis by blast
      next
        case False
        with C have "Prototype (heap realm (obj it)) = ObjectValue (obj it1)" by auto
        with Suc.prems(2) obtain d' where "d = Suc d'" "reaches_null d' realm (obj it1)"
          by (blast dest: reaches_null_parent)
        then have "d' < d" "reaches_null d' realm1 (obj it1)"
          using sp by (simp_all add: reaches_null_same_prototypes)
        then show ?thesis by blast
      qed
      then obtain d1 where d1: "reaches_null d1 realm1 (obj it1)"
        "d1 < d \<or> d1 = d \<and> remaining it1 < remaining it"
        by blast
      from Suc.IH [OF n d1(1)] obtain d' where "reaches_null d' realm' (obj it')"
        "d' < d1 \<or> d' = d1 \<and> (remaining it' < remaining it1
          \<or> remaining it' = remaining it1 \<and> at_new_key it' < at_new_key it1)"
        by blast
      with d1(2) show ?thesis
        by (intro exI [of _ d']) auto
    qed
  qed
qed

lemma enumerate_keys_mono:
  "enumerate_keys n realm it = Some r \<Longrightarrow> enumerate_keys (n + k) realm it = Some r"
proof (induction n arbitrary: realm it r)
  case 0
  then show ?case by simp
next
  case (Suc n)
  from Suc.prems obtain r1 where r1: "iterator_next (Suc n) realm it = Some r1"
    by (auto split: option.splits)
  then have m: "iterator_next (Suc (n + k)) realm it = Some r1"
    using iterator_next_mono [of "Suc n" realm it r1 k] by simp
  show ?case
  proof (cases r1)
    case (Inl e)
    with Suc.prems r1 m show ?thesis by simp
  next
    case (Inr a)
    obtain res it1 realm1 where a: "a = (res, it1, realm1)" by (cases a)
    show ?thesis
    proof (cases res)
      case None
      with Suc.prems r1 m Inr a show ?thesis by simp
    next
      case (Some key)
      with Suc.prems r1 Inr a obtain r2 where r2: "enumerate_keys n realm1 it1 = Some r2"
        by (auto split: option.splits)
      then have "enumerate_keys (n + k) realm1 it1 = Some r2" by (rule Suc.IH)
      with Suc.prems r1 Inr a Some r2 show ?thesis
        by (simp del: iterator_next.simps add: m)
    qed
  qed
qed


lemma enumerate_keys_terminates_aux:
  "\<forall>d realm it. t = (d, remaining it, at_new_key it) \<longrightarrow> reaches_null d realm (obj it) \<longrightarrow>
     (\<exists>n r. enumerate_keys n realm it = Some r)"
proof (rule wf_induct [of "less_than <*lex*> less_than <*lex*> less_than" _ t])
  show "wf (less_than <*lex*> less_than <*lex*> less_than)"
    by (intro wf_lex_prod wf_less_than)
next
  fix t :: "nat \<times> nat \<times> nat"
  assume IH: "\<forall>y. (y, t) \<in> less_than <*lex*> less_than <*lex*> less_than \<longrightarrow>
    (\<forall>d realm it. y = (d, remaining it, at_new_key it) \<longrightarrow> reaches_null d realm (obj it) \<longrightarrow>
       (\<exists>n r. enumerate_keys n realm it = Some r))"
  show "\<forall>d realm it. t = (d, remaining it, at_new_key it) \<longrightarrow> reaches_null d realm (obj it) \<longrightarrow>
     (\<exists>n r. enumerate_keys n realm it = Some r)"
  proof (intro allI impI)
    fix d realm it
    assume t: "t = (d, remaining it, at_new_key it)" and rn: "reaches_null d realm (obj it)"
    from iterator_next_terminates [OF rn]
    obtain n1 r1 where n1: "iterator_next n1 realm it = Some r1" by blast
    then obtain m1 where m1: "n1 = Suc m1" by (cases n1) simp_all
    show "\<exists>n r. enumerate_keys n realm it = Some r"
    proof (cases r1)
      case (Inl e)
      with n1 m1 have "enumerate_keys (Suc m1) realm it = Some (Inl e)" by simp
      then show ?thesis by blast
    next
      case (Inr a)
      obtain res it1 realm1 where a: "a = (res, it1, realm1)" by (cases a)
      show ?thesis
      proof (cases res)
        case None
        with n1 m1 Inr a have "enumerate_keys (Suc m1) realm it = Some (Inr [])" by simp
        then show ?thesis by blast
      next
        case (Some key)
        with n1 Inr a have y: "iterator_next n1 realm it = Some (Inr (Some key, it1, realm1))"
          by simp
        from iterator_next_yield_decreases [OF y rn]
        obtain d' where d': "reaches_null d' realm1 (obj it1)"
          "d' < d \<or> d' = d \<and> (remaining it1 < remaining it
            \<or> remaining it1 = remaining it \<and> at_new_key it1 < at_new_key it)"
          by blast
        then have "((d', remaining it1, at_new_key it1), t)
            \<in> less_than <*lex*> less_than <*lex*> less_than"
          using t by auto
        with IH d'(1) obtain n2 r2 where n2: "enumerate_keys n2 realm1 it1 = Some r2"
          by blast
        define N where "N = n1 + n2"
        have N1: "iterator_next (Suc N) realm it = Some (Inr (Some key, it1, realm1))"
          using iterator_next_mono [OF y, of "Suc n2"] by (simp add: N_def)
        have N2: "enumerate_keys N realm1 it1 = Some r2"
          using enumerate_keys_mono [OF n2, of n1] by (simp add: N_def add.commute)
        have "\<exists>r. enumerate_keys (Suc N) realm it = Some r"
          using N1 N2 by (cases r2) (simp_all del: iterator_next.simps)
        then show ?thesis by blast
      qed
    qed
  qed
qed

lemma enumerate_keys_terminates:
  "reaches_null d realm (obj it) \<Longrightarrow> \<exists>n r. enumerate_keys n realm it = Some r"
  using enumerate_keys_terminates_aux by blast

lemma enumerate_keys_result:
  "enumerate_keys n realm it = Some (Inr ks) \<Longrightarrow>
   distinct ks \<and> (\<forall>v \<in> set ks. \<exists>k. v = StringValue k \<and> k \<notin> visited it)
   \<and> (\<exists>d. reaches_null d realm (obj it))"
proof (induction n arbitrary: realm it ks)
  case 0
  then show ?case by simp
next
  case (Suc n)
  from Suc.prems obtain res it1 realm1 where
    r1: "iterator_next (Suc n) realm it = Some (Inr (res, it1, realm1))"
    by (auto simp del: iterator_next.simps split: option.splits sum.splits)
  note R = iterator_next_result [OF r1]
  show ?case
  proof (cases res)
    case None
    with Suc.prems r1 have "ks = []" by (simp del: iterator_next.simps)
    moreover from R None have "reaches_null 0 realm1 (obj it1)" by simp
    with R have "\<exists>d. reaches_null d realm (obj it)" by blast
    ultimately show ?thesis by simp
  next
    case (Some key)
    with Suc.prems r1 obtain ks' where ks': "enumerate_keys n realm1 it1 = Some (Inr ks')"
      "ks = key # ks'"
      by (auto simp del: iterator_next.simps split: option.splits sum.splits)
    note IH = Suc.IH [OF ks'(1)]
    from R Some obtain k where k: "key = StringValue k" "k \<notin> visited it" "k \<in> visited it1"
      by auto
    have "key \<notin> set ks'"
      using IH k by auto
    moreover have "\<forall>v \<in> set ks'. \<exists>k. v = StringValue k \<and> k \<notin> visited it"
      using IH R by blast
    moreover have "\<exists>d. reaches_null d realm (obj it)"
      using IH R by blast
    ultimately show ?thesis
      using IH k ks'(2) by simp
  qed
qed

lemma hidden_key_not_yielded:
  assumes "index it < length (keys it)" and "keys it ! index it = PStringValue k"
    and "GetOwnProperty realm (obj it) (PStringValue k) = Inr (Some d, realm1)"
    and "desc_enumerable d \<noteq> Some True"
    and "enumerate_keys n realm it = Some (Inr ks)"
  shows "StringValue k \<notin> set ks"
proof -
  from assms(5) obtain m where n: "n = Suc m" by (cases n) simp_all
  from assms(5) n obtain res it' realm' where
    r: "iterator_next (Suc m) realm it = Some (Inr (res, it', realm'))"
    by (auto simp del: iterator_next.simps split: option.splits sum.splits)
  define it2 where "it2 = it\<lparr>index := index it + 1, visited := insert k (visited it)\<rparr>"
  have o: "next_object realm it = Inr (Some it)"
    using assms(1) by (simp add: next_object_def)
  have "next_turn realm it =
      (case ThrowIfMightHaveBeenDeleted (desc_value d) of
         Inl e \<Rightarrow> Inl e | Inr u \<Rightarrow> Inr (Continue it2 realm1))"
    unfolding it2_def using assms(1-4) by (simp add: next_turn_def o)
  with r have c: "iterator_next m realm1 it2 = Some (Inr (res, it', realm'))"
    by (auto split: sum.splits)
  note R = iterator_next_result [OF c]
  have kv: "k \<in> visited it'"
    using R by (auto simp: it2_def)
  show ?thesis
  proof (cases res)
    case None
    with assms(5) n r show ?thesis by (simp del: iterator_next.simps)
  next
    case (Some key)
    with assms(5) n r obtain ks' where ks': "enumerate_keys m realm' it' = Some (Inr ks')"
      "ks = key # ks'"
      by (auto simp del: iterator_next.simps split: option.splits sum.splits)
    from R Some have "key \<noteq> StringValue k"
      by (auto simp: it2_def)
    moreover from enumerate_keys_result [OF ks'(1)] kv have "StringValue k \<notin> set ks'"
      by auto
    ultimately show ?thesis
      using ks'(2) by simp
  qed
qed

text \<open>
  Claim C6. When the enumeration from an iterator returns the keys \<open>ks\<close>: no key occurs
  twice in \<open>ks\<close>, every key of \<open>ks\<close> is a string (no symbol is yielded) that the iterator had
  not visited, and the prototype chain of its object reaches null. A string key at which
  the iterator stands and whose own descriptor is not enumerable is yielded nowhere in the
  rest of the enumeration. A call of \<^verbatim>\<open>next\<close> returns the result that is done only when the
  keys of the current object are exhausted and its prototype is null. When the prototype
  chain of the object of the iterator reaches null, the enumeration returns (its keys, or
  a failure).
\<close>

theorem enumerate_keys_sequence:
  "(enumerate_keys n realm it = Some (Inr ks) \<longrightarrow>
      distinct ks \<and> (\<forall>v \<in> set ks. \<exists>k. v = StringValue k \<and> k \<notin> visited it)
      \<and> (\<exists>d. reaches_null d realm (obj it))) \<and>
   (index it < length (keys it) \<and> keys it ! index it = PStringValue k
      \<and> GetOwnProperty realm (obj it) (PStringValue k) = Inr (Some d, realm1)
      \<and> desc_enumerable d \<noteq> Some True
      \<and> enumerate_keys n realm it = Some (Inr ks) \<longrightarrow>
      StringValue k \<notin> set ks) \<and>
   (iterator_next n realm it = Some (Inr (None, it', realm')) \<longrightarrow>
      length (keys it') \<le> index it' \<and> GetPrototypeOf realm' (obj it') = NullValue) \<and>
   ((\<exists>c. reaches_null c realm (obj it)) \<longrightarrow> (\<exists>m r. enumerate_keys m realm it = Some r))"
proof (intro conjI impI)
  assume "enumerate_keys n realm it = Some (Inr ks)"
  from enumerate_keys_result [OF this]
  show "distinct ks" and "\<forall>v \<in> set ks. \<exists>k. v = StringValue k \<and> k \<notin> visited it"
    and "\<exists>d. reaches_null d realm (obj it)"
    by blast+
next
  assume "index it < length (keys it) \<and> keys it ! index it = PStringValue k
      \<and> GetOwnProperty realm (obj it) (PStringValue k) = Inr (Some d, realm1)
      \<and> desc_enumerable d \<noteq> Some True
      \<and> enumerate_keys n realm it = Some (Inr ks)"
  then show "StringValue k \<notin> set ks"
    by (elim conjE) (rule hidden_key_not_yielded)
next
  assume a: "iterator_next n realm it = Some (Inr (None, it', realm'))"
  from iterator_next_result [OF a]
  show "length (keys it') \<le> index it'" and "GetPrototypeOf realm' (obj it') = NullValue"
    by (simp_all add: GetPrototypeOf_def)
next
  assume "\<exists>c. reaches_null c realm (obj it)"
  then show "\<exists>m r. enumerate_keys m realm it = Some r"
    by (blast dest: enumerate_keys_terminates)
qed


text \<open>
  Object 2 has the keys \<open>a\<close> (not enumerable) and \<open>b\<close>; its prototype 3 has \<open>a\<close>, \<open>b\<close> and
  \<open>c\<close>. The enumeration yields \<open>b\<close> and \<open>c\<close>: \<open>a\<close> is hidden and \<open>b\<close> is not repeated.
\<close>

lemma chain_enumeration:
  "enumerate_keys 10 chain_realm chain_iterator = Some (Inr [StringValue ''b'', StringValue ''c''])"
  by code_simp

theorem enumerate_keys_sequence_witness:
  "EnumerateObjectProperties chain_realm 2 = Inr chain_iterator \<and>
   enumerate_keys 10 chain_realm chain_iterator
     = Some (Inr [StringValue ''b'', StringValue ''c'']) \<and>
   distinct [StringValue ''b'', StringValue ''c''] \<and>
   StringValue ''a'' \<notin> set [StringValue ''b'', StringValue ''c''] \<and>
   (\<exists>d. reaches_null d chain_realm 2)"
proof -
  let ?a = "dataDescriptor (NumberValue 1) True False True"
  let ?ks = "[StringValue ''b'', StringValue ''c'']"
  have h: "heap chain_realm 2
      = ordinary_object
          [own_property 2 ''a'' ?a,
           own_property 2 ''b'' (dataDescriptor (NumberValue 2) True True True)]
          (ObjectValue 3)"
    by (simp add: chain_realm_def realm_of_def)
  have i: "\<not> IsArrayIndex ''a''" "\<not> IsArrayIndex ''b''"
    by code_simp+
  have e: "EnumerateObjectProperties chain_realm 2 = Inr chain_iterator"
    by (simp add: EnumerateObjectProperties_def OwnPropertyKeys_def OrdinaryOwnPropertyKeys_def
        getOwnPropertyKeysArray_def symbol_keys_def h ordinary_object_def own_property_def
        List.map_filter_simps chain_iterator_def i)
  have g: "GetOwnProperty chain_realm 2 (PStringValue ''a'') = Inr (Some ?a, chain_realm)"
    by (simp add: GetOwnProperty_def OrdinaryGetOwnProperty_def get_binding_def h
        ordinary_object_def own_property_def dataDescriptor_def IsDataDescriptor_def)
  have p: "index chain_iterator < length (keys chain_iterator)"
    "keys chain_iterator ! index chain_iterator = PStringValue ''a''"
    "desc_enumerable ?a \<noteq> Some True" "obj chain_iterator = 2"
    by (simp_all add: chain_iterator_def dataDescriptor_def)
  note T = enumerate_keys_sequence [where n = 10 and realm = chain_realm
      and it = chain_iterator and ks = ?ks and k = "''a''" and d = ?a
      and ?realm1.0 = chain_realm]
  from T chain_enumeration have 1: "distinct ?ks" and 3: "\<exists>d. reaches_null d chain_realm 2"
    unfolding p(4) by blast+
  from T chain_enumeration g p have 2: "StringValue ''a'' \<notin> set ?ks"
    by metis
  from e chain_enumeration 1 2 3 show ?thesis by blast
qed

end
